theory Spec2Isabelle
  imports Main "HOL-Library.AList" "HOL-Library.Sublist" "HOL-Library.Char_ord"
    "HOL-Library.List_Lexorder"
begin

section \<open>JavaScript values and plain objects\<close>

text \<open>
  The library is JavaScript. Plain data (override objects, JSON Schema documents, payloads)
  is modelled by the datatype \<open>jsval\<close>. An object is the list of its own enumerable
  properties in insertion order; an absent property reads as \<open>Undefined\<close>. Strings are
  lists of 8-bit characters. \<open>Num n\<close> is the number nearest to the integer \<open>n\<close>; it is
  that integer when \<open>n\<close> is below \<open>2^53\<close> in magnitude, and its text is the text of
  \<open>n\<close> when \<open>n\<close> is below \<open>2^53\<close> in magnitude or has at most 15 significant digits.
  What the objects inherit from \<open>Object.prototype\<close> is modelled where the code reads or
  assigns a property under a computed name (see the section on dictionaries).
\<close>

datatype jsval =
    Undefined
  | Null
  | Bool bool
  | Num int
  | Str string
  | Arr "jsval list"
  | Obj "(string \<times> jsval) list"

text \<open>ToBoolean: what \<open>!!v\<close>, \<open>v || w\<close> and \<open>if (v)\<close> test.\<close>

fun truthy :: "jsval \<Rightarrow> bool" where
  "truthy Undefined = False"
| "truthy Null = False"
| "truthy (Bool b) = b"
| "truthy (Num n) = (n \<noteq> 0)"
| "truthy (Str s) = (s \<noteq> [])"
| "truthy (Arr xs) = True"
| "truthy (Obj kvs) = True"

text \<open>Property read \<open>o[k]\<close> on a plain object; on a missing property the result is \<open>undefined\<close>.\<close>

definition js_get :: "(string \<times> jsval) list \<Rightarrow> string \<Rightarrow> jsval" where
  "js_get kvs k = (case map_of kvs k of None \<Rightarrow> Undefined | Some v \<Rightarrow> v)"

text \<open>\<open>a || b\<close> on values.\<close>

definition js_or :: "jsval \<Rightarrow> jsval \<Rightarrow> jsval" where
  "js_or a b = (if truthy a then a else b)"

section \<open>The validator closure (src/dist/cjs/ajvEngine.js, lines 165-180)\<close>

text \<open>
  The validation engine is external. A compiled engine function takes the payload and
  yields its verdict, the payload as the engine left it (coercion and defaults are applied
  in place) and the \<open>errors\<close> property it set (\<open>None\<close> when it is null or undefined).
  An engine error object has an optional \<open>instancePath\<close>, an optional
  \<open>params.missingProperty\<close>, a \<open>keyword\<close> and an optional \<open>message\<close>.
\<close>

record AjvError =
  instancePath :: "string option"
  missingProperty :: "string option"
  keyword :: string
  message :: "string option"

type_synonym ValidateFn = "jsval \<Rightarrow> bool \<times> jsval \<times> AjvError list option"

record FieldError =
  field :: string
  error :: string
  fe_message :: "string option"








section \<open>Plain objects used as dictionaries\<close>

text \<open>
  A dictionary object (\<open>children\<close>, \<open>append\<close>, the local maps \<open>out\<close>,
  \<open>effective\<close> and \<open>properties\<close>) is the association list of its own properties in
  insertion order; its prototype is \<open>Object.prototype\<close>. \<open>map_of\<close> reads an own
  property (the first binding), and \<open>Object.entries(o)\<close> enumerates the own properties in
  the order of the language: array-index keys in ascending numeric order first, then the
  other keys in insertion order. Later duplicates of a key in a list have no counterpart in
  an object and are dropped by the enumeration.

  A read \<open>o[k]\<close> of a name that is not an own property finds what \<open>Object.prototype\<close>
  has under that name: a function for each name of \<open>objectPrototypeNames\<close> but
  \<open>__proto__\<close>, and \<open>Object.prototype\<close> itself for \<open>__proto__\<close>; all are truthy
  and none has a property \<open>children\<close>.

  The assignment \<open>o[k] = v\<close> of an object \<open>v\<close> changes the own property when there is
  one and creates it otherwise, except under the name \<open>__proto__\<close>: without an own
  property of that name the assignment replaces the prototype of \<open>o\<close> and creates no
  property. \<open>objAssign\<close> gives the own properties after the assignment.
\<close>

definition objectPrototypeNames :: "string list" where
  "objectPrototypeNames =
     [''constructor'', ''__defineGetter__'', ''__defineSetter__'', ''hasOwnProperty'',
      ''__lookupGetter__'', ''__lookupSetter__'', ''isPrototypeOf'', ''propertyIsEnumerable'',
      ''toString'', ''valueOf'', ''__proto__'', ''toLocaleString'']"

definition objAssign :: "string \<Rightarrow> 'a \<Rightarrow> (string \<times> 'a) list \<Rightarrow> (string \<times> 'a) list" where
  "objAssign k v obj =
     (if k = ''__proto__'' \<and> map_of obj k = None then obj else AList.update k v obj)"

definition is_digit :: "char \<Rightarrow> bool" where
  "is_digit c = (48 \<le> (of_char c :: int) \<and> (of_char c :: int) \<le> 57)"

definition digits_value :: "string \<Rightarrow> int" where
  "digits_value s = fold (\<lambda>c n. 10 * n + (of_char c - 48)) s 0"

text \<open>An array index is a canonical decimal numeral below \<open>2^32 - 1\<close>.\<close>

definition is_array_index :: "string \<Rightarrow> bool" where
  "is_array_index s =
     (s \<noteq> [] \<and> list_all is_digit s \<and> (s = ''0'' \<or> hd s \<noteq> CHR ''0'') \<and>
      digits_value s < 4294967295)"

definition Object_entries :: "(string \<times> 'a) list \<Rightarrow> (string \<times> 'a) list" where
  "Object_entries kvs =
     (let own = AList.clearjunk kvs
      in sort_key (\<lambda>kv. digits_value (fst kv)) (filter (\<lambda>kv. is_array_index (fst kv)) own)
         @ filter (\<lambda>kv. \<not> is_array_index (fst kv)) own)"

text \<open>\<open>path.split('.')\<close>: never empty; the empty string splits into one empty segment.\<close>

fun split_dot :: "string \<Rightarrow> string list" where
  "split_dot [] = [[]]"
| "split_dot (c # cs) =
     (if c = CHR ''.'' then [] # split_dot cs
      else (case split_dot cs of [] \<Rightarrow> [[c]] | w # ws \<Rightarrow> (c # w) # ws))"

section \<open>The constraint model (src/dist/types/types.d.ts)\<close>

datatype PrimitiveType =
  T_string | T_number | T_boolean | T_date | T_objectId | T_array | T_object | T_mixed | T_buffer

text \<open>
  \<open>pattern\<close> is a string or a regular-expression object; \<open>RegExp s\<close> is the object whose
  \<open>source\<close> is \<open>s\<close>. \<open>enum\<close> is declared an array of strings; the introspector can
  also store a string there (\<open>EnumText\<close>, the copy that \<open>slice()\<close> makes of a string).
\<close>

datatype Pattern = PatternString string | RegExp string

datatype EnumValue = EnumList "string list" | EnumText string

text \<open>
  A \<open>Rule\<close> object: its scalar properties form the record \<open>Facets\<close>, the two properties
  that hold further rules are the arguments \<open>items\<close> and \<open>children\<close> of the constructor.
  A property with a value is \<open>Some\<close> of it. A property without a value is absent, or
  present with the value undefined when its name is listed in \<open>undefinedProps\<close>; the two
  read the same, and differ when the object is spread over another (\<open>mergeRules\<close>) or
  copied as plain data. A name listed in \<open>undefinedProps\<close> whose property has a value
  means nothing. \<open>type\<close> is declared mandatory, and the rules that callers append may
  still leave it out (\<open>mergeRules\<close> supplies a default): an object without it has
  \<open>type' = None\<close>. A \<open>RuleTree\<close> is a rule of type \<open>object\<close>. Values of this type
  are trees: two positions never share an object.
\<close>

record Facets =
  type' :: "PrimitiveType option"
  required :: "bool option"
  minLength :: "int option"
  maxLength :: "int option"
  pattern :: "Pattern option"
  enum :: "EnumValue option"
  min' :: "int option"
  max' :: "int option"
  minItems :: "int option"
  maxItems :: "int option"
  undefinedProps :: "string list"

datatype Rule =
  Rule (facets: Facets) (items: "Rule option") (children: "(string \<times> Rule) list option")

text \<open>
  The overrides of an endpoint. The type parameter is the representation of the appended
  rules: rule values in \<open>Overrides\<close>, addresses of rule objects in the store model below.
\<close>

record 'r OverridesOf =
  ov_include :: "string list option"
  ov_exclude :: "string list option"
  ov_optional :: "string list option"
  ov_required :: "string list option"
  ov_append :: "(string \<times> 'r) list option"

type_synonym Overrides = "Rule OverridesOf"

text \<open>
  The exceptions of the code. \<open>OutsideModel\<close> is none of them: it is the answer of the
  model to a call that replaces the prototype of a dictionary of a rule tree, or that writes
  a property onto an object that other objects inherit from. What the code does after that
  depends on the prototype chains of the objects, which the tree values do not hold.
\<close>

datatype error = TypeError | SchemaError | RangeError | SyntaxError | OutsideModel

text \<open>The object literals \<open>{}\<close> and \<open>{ type: t }\<close>.\<close>

definition noFacets :: Facets where
  "noFacets = \<lparr> type' = None, required = None, minLength = None, maxLength = None,
                 pattern = None, enum = None, min' = None, max' = None,
                 minItems = None, maxItems = None, undefinedProps = [] \<rparr>"

definition typeOnly :: "PrimitiveType \<Rightarrow> Facets" where
  "typeOnly t = \<lparr> type' = Some t, required = None, minLength = None, maxLength = None,
                   pattern = None, enum = None, min' = None, max' = None,
                   minItems = None, maxItems = None, undefinedProps = [] \<rparr>"

text \<open>The object literal \<open>{ type: 'object', children: ch }\<close>.\<close>

definition objectNode :: "(string \<times> Rule) list option \<Rightarrow> Rule" where
  "objectNode ch = Rule (typeOnly T_object) None ch"

text \<open>
  The names of the properties of a rule, the names of those that have a value, and whether
  a rule has a property (with a value or with the value undefined).
\<close>

definition rulePropNames :: "string list" where
  "rulePropNames =
     [''type'', ''required'', ''minLength'', ''maxLength'', ''pattern'', ''enum'', ''min'',
      ''max'', ''items'', ''minItems'', ''maxItems'', ''children'']"

definition definedProps :: "Facets \<Rightarrow> 'i option \<Rightarrow> 'c option \<Rightarrow> string list" where
  "definedProps f it ch =
     (if type' f \<noteq> None then [''type''] else [])
     @ (if required f \<noteq> None then [''required''] else [])
     @ (if minLength f \<noteq> None then [''minLength''] else [])
     @ (if maxLength f \<noteq> None then [''maxLength''] else [])
     @ (if pattern f \<noteq> None then [''pattern''] else [])
     @ (if enum f \<noteq> None then [''enum''] else [])
     @ (if min' f \<noteq> None then [''min''] else [])
     @ (if max' f \<noteq> None then [''max''] else [])
     @ (if it \<noteq> None then [''items''] else [])
     @ (if minItems f \<noteq> None then [''minItems''] else [])
     @ (if maxItems f \<noteq> None then [''maxItems''] else [])
     @ (if ch \<noteq> None then [''children''] else [])"


section \<open>The override engine (src/dist/cjs/policy.js, lines 104-198)\<close>

text \<open>
  The functions \<open>mergeRules\<close>, \<open>flatten\<close> and \<open>applyOverrides\<close> of the module
  \<open>jsonSchemaCompiler\<close>; the line numbers are those of the file above.
\<close>

text \<open>
  \<open>{ ...base, ...overlay }\<close>: every own property of the overlay replaces the property of
  the base, one with the value undefined included. The spread is written on the properties
  of a rule, whatever \<open>items\<close> and \<open>children\<close> hold (rules here, addresses in the store
  model below).
\<close>

definition spreadOver :: "string list \<Rightarrow> string \<Rightarrow> 'a option \<Rightarrow> 'a option \<Rightarrow> 'a option" where
  "spreadOver undefs n b ov =
     (case ov of Some v \<Rightarrow> Some v | None \<Rightarrow> if n \<in> set undefs then None else b)"

definition mergeProps ::
  "Facets \<times> 'i option \<times> 'c option \<Rightarrow> Facets \<times> 'i option \<times> 'c option
   \<Rightarrow> Facets \<times> 'i option \<times> 'c option" where
  "mergeProps base overlay =
     (case base of (fb, ib, cb) \<Rightarrow>
      case overlay of (fo, io, co) \<Rightarrow>
        (let u = undefinedProps fo;
             f = \<lparr> type' = spreadOver u ''type'' (type' fb) (type' fo),
                   required = spreadOver u ''required'' (required fb) (required fo),
                   minLength = spreadOver u ''minLength'' (minLength fb) (minLength fo),
                   maxLength = spreadOver u ''maxLength'' (maxLength fb) (maxLength fo),
                   pattern = spreadOver u ''pattern'' (pattern fb) (pattern fo),
                   enum = spreadOver u ''enum'' (enum fb) (enum fo),
                   min' = spreadOver u ''min'' (min' fb) (min' fo),
                   max' = spreadOver u ''max'' (max' fb) (max' fo),
                   minItems = spreadOver u ''minItems'' (minItems fb) (minItems fo),
                   maxItems = spreadOver u ''maxItems'' (maxItems fb) (maxItems fo),
                   undefinedProps = [] \<rparr>;
             it = spreadOver u ''items'' ib io;
             ch = spreadOver u ''children'' cb co
         in (f\<lparr> undefinedProps :=
                   filter (\<lambda>n. (n \<in> set u \<or> n \<in> set (undefinedProps fb)) \<and>
                                n \<notin> set (definedProps f it ch)) rulePropNames \<rparr>,
             it, ch)))"

definition mergeRules :: "Rule \<Rightarrow> Rule \<Rightarrow> Rule" where
  "mergeRules base overlay =
     (case mergeProps (facets base, items base, children base)
                      (facets overlay, items overlay, children overlay) of
        (f, it, ch) \<Rightarrow> Rule f it ch)"

lemma set_clearjunk_subset: "set (AList.clearjunk kvs) \<subseteq> set kvs"
  by (induction kvs rule: AList.clearjunk.induct) (auto simp: AList.delete_eq)

lemma Object_entries_subset: "set (Object_entries kvs) \<subseteq> set kvs"
  using set_clearjunk_subset [of kvs] by (auto simp: Object_entries_def Let_def)

lemma Object_entries_Nil [simp]: "Object_entries [] = []"
  by (simp add: Object_entries_def)

lemma size_child_less: "(k, c) \<in> set ch \<Longrightarrow> size c < size (Rule f it (Some ch))"
  by (induction ch) auto

lemma size_objectNode_children: "size (objectNode (children c)) \<le> size c"
  by (cases c; cases "items c") (simp_all add: objectNode_def)

lemma size_entry_less:
  assumes "kc \<in> set (Object_entries (case children tree of None \<Rightarrow> [] | Some ch \<Rightarrow> ch))"
  shows "size (snd kc) < size tree"
proof (cases tree)
  case (Rule f it cho)
  show ?thesis
  proof (cases cho)
    case None
    with assms Rule show ?thesis by simp
  next
    case (Some ch)
    with assms Rule have "(fst kc, snd kc) \<in> set ch"
      using Object_entries_subset [of ch] by auto
    then show ?thesis
      using size_child_less [of "fst kc" "snd kc" ch f it] Rule Some by simp
  qed
qed

text \<open>The path of key \<open>k\<close> under a prefix: \<open>prefix ? `${prefix}.${k}` : k\<close>.\<close>

definition joinPath :: "string \<Rightarrow> string \<Rightarrow> string" where
  "joinPath pfx k = (if pfx \<noteq> [] then pfx @ ''.'' @ k else k)"

text \<open>
  \<open>flatten(tree, prefix, out)\<close>: a child of type \<open>object\<close> that has \<open>children\<close> is
  expanded, every other child is recorded at its dotted path by \<open>out[path] = child\<close>.
  The map \<open>out\<close> is a new object that the callers only enumerate, so that only its own
  properties matter.
\<close>

function flatten :: "Rule \<Rightarrow> string \<Rightarrow> (string \<times> Rule) list \<Rightarrow> (string \<times> Rule) list" where
  "flatten tree pfx out =
     fold (\<lambda>kc out.
             if type' (facets (snd kc)) = Some T_object \<and> children (snd kc) \<noteq> None
             then flatten (objectNode (children (snd kc))) (joinPath pfx (fst kc)) out
             else objAssign (joinPath pfx (fst kc)) (snd kc) out)
          (Object_entries (case children tree of None \<Rightarrow> [] | Some ch \<Rightarrow> ch)) out"
  by pat_completeness auto
termination
proof (relation "measure (\<lambda>(t, p, out). size t)")
  show "wf (measure (\<lambda>(t, p, out). size t))" by simp
next
  fix tree :: Rule and pfx :: string and kc :: "string \<times> Rule"
    and out outa :: "(string \<times> Rule) list"
  assume "kc \<in> set (Object_entries (case children tree of None \<Rightarrow> [] | Some ch \<Rightarrow> ch))"
  then have "size (snd kc) < size tree" by (rule size_entry_less)
  with size_objectNode_children [of "snd kc"]
  show "((objectNode (children (snd kc)), joinPath pfx (fst kc), outa), tree, pfx, out)
          \<in> measure (\<lambda>(t, p, out). size t)"
    by simp
qed

text \<open>
  The selection sets of lines 157-160. \<open>include\<close> is a filter only when the array is
  present and non-empty.
\<close>

definition includeSet :: "'r OverridesOf \<Rightarrow> string list option" where
  "includeSet overrides =
     (case ov_include overrides of None \<Rightarrow> None | Some xs \<Rightarrow> if xs = [] then None else Some xs)"

definition listOrEmpty :: "'a list option \<Rightarrow> 'a list" where
  "listOrEmpty xs = (case xs of None \<Rightarrow> [] | Some ys \<Rightarrow> ys)"

text \<open>\<open>r.required = b\<close> on the properties of a rule object and on a rule.\<close>

definition setRequired :: "bool \<Rightarrow> Facets \<Rightarrow> Facets" where
  "setRequired b f =
     f\<lparr> required := Some b, undefinedProps := removeAll ''required'' (undefinedProps f) \<rparr>"

definition withRequired :: "bool \<Rightarrow> Rule \<Rightarrow> Rule" where
  "withRequired b r = Rule (setRequired b (facets r)) (items r) (children r)"

text \<open>
  Lines 162-177: the loop over the flattened base map. A path outside a non-empty
  \<open>include\<close> or inside \<open>exclude\<close> is skipped; a kept rule is cloned, \<open>optional\<close> sets
  \<open>required = false\<close> and then \<open>required\<close> sets \<open>required = true\<close>. The map
  \<open>effective\<close> is a new object that is only enumerated afterwards.
\<close>

definition selectRules :: "(string \<times> Rule) list \<Rightarrow> Overrides \<Rightarrow> (string \<times> Rule) list" where
  "selectRules baseMap overrides =
     fold (\<lambda>(path, rule) effective.
             if (case includeSet overrides of None \<Rightarrow> False | Some inc \<Rightarrow> path \<notin> set inc)
             then effective
             else if path \<in> set (listOrEmpty (ov_exclude overrides)) then effective
             else
               let r = rule;
                   r = (if path \<in> set (listOrEmpty (ov_optional overrides))
                        then withRequired False r else r);
                   r = (if path \<in> set (listOrEmpty (ov_required overrides))
                        then withRequired True r else r)
               in objAssign path r effective)
          (Object_entries baseMap) []"

text \<open>The default of an appended rule: \<open>{ type: 'string', required: true }\<close>.\<close>

definition appendDefault :: Rule where
  "appendDefault = Rule ((typeOnly T_string)\<lparr> required := Some True \<rparr>) None None"

text \<open>Lines 180-182: every entry of \<open>append\<close> is merged under the default and stored.\<close>

definition appendRules :: "(string \<times> Rule) list \<Rightarrow> Overrides \<Rightarrow> (string \<times> Rule) list" where
  "appendRules effective overrides =
     fold (\<lambda>(path, rule) effective. objAssign path (mergeRules appendDefault rule) effective)
          (Object_entries (listOrEmpty (ov_append overrides))) effective"

text \<open>
  Lines 187-195 for one path: walk the segments before the last, creating
  \<open>{ type: 'object', children: {} }\<close> where a segment is missing, then store the rule under
  the last segment. Reading a key of \<open>cur.children\<close> when \<open>cur\<close> has no \<open>children\<close>
  throws a TypeError. A segment that is no own property but a name of
  \<open>objectPrototypeNames\<close> reads a truthy inherited value; the walk steps onto it, and
  since it has no \<open>children\<close> the next read or the final assignment throws a TypeError.
  The final assignment under \<open>__proto__\<close>, without an own property of that name,
  replaces the prototype of the dictionary.
\<close>

fun attachRule :: "Rule \<Rightarrow> string list \<Rightarrow> string \<Rightarrow> Rule \<Rightarrow> error + Rule" where
  "attachRule cur [] leaf rule =
     (case children cur of
        None \<Rightarrow> Inl TypeError
      | Some ch \<Rightarrow>
          if leaf = ''__proto__'' \<and> map_of ch leaf = None then Inl OutsideModel
          else Inr (Rule (facets cur) (items cur) (Some (AList.update leaf rule ch))))"
| "attachRule cur (seg # segs) leaf rule =
     (case children cur of
        None \<Rightarrow> Inl TypeError
      | Some ch \<Rightarrow>
          if map_of ch seg = None \<and> seg \<in> set objectPrototypeNames then Inl TypeError
          else
            (let nxt = (case map_of ch seg of None \<Rightarrow> objectNode (Some []) | Some n \<Rightarrow> n)
             in case attachRule nxt segs leaf rule of
                  Inl e \<Rightarrow> Inl e
                | Inr nxt' \<Rightarrow> Inr (Rule (facets cur) (items cur) (Some (AList.update seg nxt' ch)))))"

text \<open>Lines 185-196: the loop over the effective map; an exception ends the call.\<close>

fun rebuildLoop :: "(string \<times> Rule) list \<Rightarrow> Rule \<Rightarrow> error + Rule" where
  "rebuildLoop [] root = Inr root"
| "rebuildLoop ((path, rule) # rest) root =
     (case attachRule root (butlast (split_dot path)) (last (split_dot path)) rule of
        Inl e \<Rightarrow> Inl e
      | Inr root' \<Rightarrow> rebuildLoop rest root')"

definition rebuildTree :: "(string \<times> Rule) list \<Rightarrow> error + Rule" where
  "rebuildTree effective = rebuildLoop (Object_entries effective) (objectNode (Some []))"

definition effectiveRules :: "Rule \<Rightarrow> Overrides \<Rightarrow> (string \<times> Rule) list" where
  "effectiveRules ruleTree overrides =
     appendRules (selectRules (flatten ruleTree [] []) overrides) overrides"

definition applyOverrides :: "Rule \<Rightarrow> Overrides \<Rightarrow> error + Rule" where
  "applyOverrides ruleTree overrides = rebuildTree (effectiveRules ruleTree overrides)"




fun lookupPath :: "Rule \<Rightarrow> string list \<Rightarrow> Rule option" where
  "lookupPath node [] = Some node"
| "lookupPath node (seg # segs) =
     (case children node of
        None \<Rightarrow> None
      | Some ch \<Rightarrow> (case map_of ch seg of None \<Rightarrow> None | Some n \<Rightarrow> lookupPath n segs))"


text \<open>
  The paths in the order in which the rebuild loop visits them (the enumeration order of
  the effective map), and the paths that a list holds after a given one.
\<close>

definition rebuildOrder :: "Rule \<Rightarrow> Overrides \<Rightarrow> string list" where
  "rebuildOrder ruleTree overrides = map fst (Object_entries (effectiveRules ruleTree overrides))"

definition visitedAfter :: "string \<Rightarrow> string list \<Rightarrow> string list" where
  "visitedAfter p paths = drop 1 (dropWhile (\<lambda>q. q \<noteq> p) paths)"

text \<open>
  The body of the selection loop, named for the proofs: the test of lines 165-169 and the
  cloned rule of lines 171-175.
\<close>

definition keeps :: "'r OverridesOf \<Rightarrow> string \<Rightarrow> bool" where
  "keeps overrides path =
     (\<not> (case includeSet overrides of None \<Rightarrow> False | Some inc \<Rightarrow> path \<notin> set inc) \<and>
      path \<notin> set (listOrEmpty (ov_exclude overrides)))"



definition appendStep :: "string \<times> Rule \<Rightarrow> (string \<times> Rule) list \<Rightarrow> (string \<times> Rule) list" where
  "appendStep = (\<lambda>(path, rule) effective.
      objAssign path (mergeRules appendDefault rule) effective)"

text \<open>A rule with a type and nothing else, and the overrides object \<open>{}\<close>.\<close>

definition plainRule :: "PrimitiveType \<Rightarrow> Rule" where
  "plainRule t = Rule (typeOnly t) None None"

definition noOverrides :: Overrides where
  "noOverrides = \<lparr> ov_include = None, ov_exclude = None, ov_optional = None,
                    ov_required = None, ov_append = None \<rparr>"

section \<open>The override engine on objects in a store\<close>

text \<open>
  Whether a call changes an object it was given depends on which objects are shared, which
  the tree values above cannot express. Here rule objects and dictionary objects live in a
  store, a list of cells addressed by position; \<open>items\<close>, \<open>children\<close>, the entries of a
  dictionary and the entries of \<open>append\<close> hold addresses. An address outside the store, or
  of a cell of the other kind, does not occur in a store that represents a JavaScript heap;
  reading one is answered by \<open>TypeError\<close>. The local maps \<open>out\<close> and \<open>effective\<close>
  are new objects that nothing else refers to, so they stay association lists (from paths
  to addresses), and the temporary object that \<open>flatten\<close> passes to itself is not
  allocated. The recursion of \<open>flatten\<close> is bounded by the depth of the call stack, its
  first argument; exceeding it is the RangeError of the language.
\<close>

datatype cell = RuleObject Facets "nat option" "nat option" | DictObject "(string \<times> nat) list"

type_synonym store = "cell list"

definition alloc :: "store \<Rightarrow> cell \<Rightarrow> nat \<times> store" where
  "alloc h c = (length h, h @ [c])"

definition cellAt :: "store \<Rightarrow> nat \<Rightarrow> cell option" where
  "cellAt h a = (if a < length h then Some (h ! a) else None)"

fun flattenS :: "nat \<Rightarrow> store \<Rightarrow> nat option \<Rightarrow> string \<Rightarrow> (string \<times> nat) list
                 \<Rightarrow> error + (string \<times> nat) list"
  and flattenLoopS :: "nat \<Rightarrow> store \<Rightarrow> (string \<times> nat) list \<Rightarrow> string \<Rightarrow> (string \<times> nat) list
                 \<Rightarrow> error + (string \<times> nat) list"
where
  "flattenS 0 h chd pfx out = Inl RangeError"
| "flattenS (Suc depth) h None pfx out = Inr out"
| "flattenS (Suc depth) h (Some d) pfx out =
     (case cellAt h d of
        Some (DictObject kvs) \<Rightarrow> flattenLoopS depth h (Object_entries kvs) pfx out
      | _ \<Rightarrow> Inl TypeError)"
| "flattenLoopS depth h [] pfx out = Inr out"
| "flattenLoopS depth h ((k, child) # rest) pfx out =
     (case cellAt h child of
        Some (RuleObject f it ch) \<Rightarrow>
          if type' f = Some T_object \<and> ch \<noteq> None
          then (case flattenS depth h ch (joinPath pfx k) out of
                  Inl e \<Rightarrow> Inl e
                | Inr out' \<Rightarrow> flattenLoopS depth h rest pfx out')
          else flattenLoopS depth h rest pfx (objAssign (joinPath pfx k) child out)
      | _ \<Rightarrow> Inl TypeError)"

text \<open>
  Lines 163-177 on the store: the clone \<open>{ ...rule }\<close> of a kept rule is a new rule object
  with the same scalar properties and the same \<open>items\<close> and \<open>children\<close> addresses.
\<close>

fun selectLoopS :: "'r OverridesOf \<Rightarrow> (string \<times> nat) list \<Rightarrow> store \<Rightarrow> (string \<times> nat) list
                    \<Rightarrow> error + (string \<times> nat) list \<times> store" where
  "selectLoopS overrides [] h effective = Inr (effective, h)"
| "selectLoopS overrides ((path, rule) # rest) h effective =
     (if \<not> keeps overrides path then selectLoopS overrides rest h effective
      else
        (case cellAt h rule of
           Some (RuleObject f it ch) \<Rightarrow>
             (let f = (if path \<in> set (listOrEmpty (ov_optional overrides))
                       then setRequired False f else f);
                  f = (if path \<in> set (listOrEmpty (ov_required overrides))
                       then setRequired True f else f)
              in case alloc h (RuleObject f it ch) of
                   (r, h) \<Rightarrow> selectLoopS overrides rest h (objAssign path r effective))
         | _ \<Rightarrow> Inl TypeError))"

text \<open>
  Lines 180-182 on the store: \<open>mergeRules\<close> builds a new rule object from the default and
  the caller's rule; a property of the caller's rule, an address included, wins.
\<close>

fun appendLoopS :: "(string \<times> nat) list \<Rightarrow> store \<Rightarrow> (string \<times> nat) list
                    \<Rightarrow> error + (string \<times> nat) list \<times> store" where
  "appendLoopS [] h effective = Inr (effective, h)"
| "appendLoopS ((path, rule) # rest) h effective =
     (case cellAt h rule of
        Some (RuleObject f it ch) \<Rightarrow>
          (case mergeProps (facets appendDefault, None, None) (f, it, ch) of
             (f, it, ch) \<Rightarrow>
               (case alloc h (RuleObject f it ch) of
                  (r, h) \<Rightarrow> appendLoopS rest h (objAssign path r effective)))
      | _ \<Rightarrow> Inl TypeError)"

text \<open>
  Lines 187-195 on the store: the assignments \<open>cur.children[seg] = {...}\<close> and
  \<open>cur.children[last] = rule\<close> change the dictionary object that \<open>cur.children\<close>
  refers to, in place. The result is the exception thrown, if any, and the store as the
  walk leaves it: what was written before an exception stays written.
\<close>

fun attachRuleS :: "store \<Rightarrow> nat \<Rightarrow> string list \<Rightarrow> string \<Rightarrow> nat \<Rightarrow> error option \<times> store" where
  "attachRuleS h cur [] leaf rule =
     (case cellAt h cur of
        Some (RuleObject f it (Some d)) \<Rightarrow>
          (case cellAt h d of
             Some (DictObject kvs) \<Rightarrow>
               if leaf = ''__proto__'' \<and> map_of kvs leaf = None then (Some OutsideModel, h)
               else (None, h[d := DictObject (AList.update leaf rule kvs)])
           | _ \<Rightarrow> (Some TypeError, h))
      | _ \<Rightarrow> (Some TypeError, h))"
| "attachRuleS h cur (seg # segs) leaf rule =
     (case cellAt h cur of
        Some (RuleObject f it (Some d)) \<Rightarrow>
          (case cellAt h d of
             Some (DictObject kvs) \<Rightarrow>
               (case map_of kvs seg of
                  Some n \<Rightarrow> attachRuleS h n segs leaf rule
                | None \<Rightarrow>
                    if seg \<in> set objectPrototypeNames then (Some TypeError, h)
                    else
                      (case alloc h (DictObject []) of
                         (dn, h) \<Rightarrow>
                           (case alloc h (RuleObject (typeOnly T_object) None (Some dn)) of
                              (n, h) \<Rightarrow>
                                attachRuleS (h[d := DictObject (AList.update seg n kvs)])
                                  n segs leaf rule)))
           | _ \<Rightarrow> (Some TypeError, h))
      | _ \<Rightarrow> (Some TypeError, h))"

fun rebuildLoopS :: "(string \<times> nat) list \<Rightarrow> nat \<Rightarrow> store \<Rightarrow> error option \<times> store" where
  "rebuildLoopS [] root h = (None, h)"
| "rebuildLoopS ((path, rule) # rest) root h =
     (case attachRuleS h root (butlast (split_dot path)) (last (split_dot path)) rule of
        (Some e, h) \<Rightarrow> (Some e, h)
      | (None, h) \<Rightarrow> rebuildLoopS rest root h)"

text \<open>
  \<open>applyOverrides(ruleTree, overrides)\<close> on the store: the address of the new root, or
  the exception thrown, and the store the call leaves. \<open>applyOverridesS\<close> is the same
  call when only a returned root is of interest.
\<close>

definition applyOverridesStore ::
  "nat \<Rightarrow> store \<Rightarrow> nat \<Rightarrow> nat OverridesOf \<Rightarrow> (error + nat) \<times> store" where
  "applyOverridesStore depth h ruleTree overrides =
     (case cellAt h ruleTree of
        Some (RuleObject f it ch) \<Rightarrow>
          (case flattenS depth h ch [] [] of
             Inl e \<Rightarrow> (Inl e, h)
           | Inr baseMap \<Rightarrow>
               (case selectLoopS overrides (Object_entries baseMap) h [] of
                  Inl e \<Rightarrow> (Inl e, h)
                | Inr (effective, h) \<Rightarrow>
                    (case appendLoopS (Object_entries (listOrEmpty (ov_append overrides))) h effective of
                       Inl e \<Rightarrow> (Inl e, h)
                     | Inr (effective, h) \<Rightarrow>
                         (case alloc h (DictObject []) of
                            (d, h) \<Rightarrow>
                              (case alloc h (RuleObject (typeOnly T_object) None (Some d)) of
                                 (root, h) \<Rightarrow>
                                   (case rebuildLoopS (Object_entries effective) root h of
                                      (Some e, h) \<Rightarrow> (Inl e, h)
                                    | (None, h) \<Rightarrow> (Inr root, h)))))))
      | _ \<Rightarrow> (Inl TypeError, h))"

definition applyOverridesS ::
  "nat \<Rightarrow> store \<Rightarrow> nat \<Rightarrow> nat OverridesOf \<Rightarrow> error + nat \<times> store" where
  "applyOverridesS depth h ruleTree overrides =
     (case applyOverridesStore depth h ruleTree overrides of
        (Inl e, h) \<Rightarrow> Inl e
      | (Inr root, h) \<Rightarrow> Inr (root, h))"

text \<open>
  The rule tree that a store holds at an address, read to a bounded depth (\<open>None\<close> when
  the bound or the store does not suffice).
\<close>

fun readRule :: "nat \<Rightarrow> store \<Rightarrow> nat \<Rightarrow> Rule option"
  and readRules :: "nat \<Rightarrow> store \<Rightarrow> (string \<times> nat) list \<Rightarrow> (string \<times> Rule) list option"
where
  "readRule 0 h a = None"
| "readRule (Suc depth) h a =
     (case cellAt h a of
        Some (RuleObject f it ch) \<Rightarrow>
          (case (case it of None \<Rightarrow> Some None
                 | Some i \<Rightarrow> map_option Some (readRule depth h i)) of
             None \<Rightarrow> None
           | Some itv \<Rightarrow>
               (case ch of
                  None \<Rightarrow> Some (Rule f itv None)
                | Some d \<Rightarrow>
                    (case cellAt h d of
                       Some (DictObject kvs) \<Rightarrow>
                         (case readRules depth h kvs of
                            None \<Rightarrow> None
                          | Some rs \<Rightarrow> Some (Rule f itv (Some rs)))
                     | _ \<Rightarrow> None)))
      | _ \<Rightarrow> None)"
| "readRules depth h [] = Some []"
| "readRules depth h ((k, a) # rest) =
     (case readRule depth h a of
        None \<Rightarrow> None
      | Some r \<Rightarrow> (case readRules depth h rest of None \<Rightarrow> None | Some rs \<Rightarrow> Some ((k, r) # rs)))"

text \<open>
  A rule tree value written into a store as objects of its own (no two positions share an
  object), and the entries of a dictionary likewise.
\<close>

function storeRule :: "Rule \<Rightarrow> store \<Rightarrow> nat \<times> store"
  and storeItems :: "Rule option \<Rightarrow> store \<Rightarrow> nat option \<times> store"
  and storeChildren :: "(string \<times> Rule) list option \<Rightarrow> store \<Rightarrow> nat option \<times> store"
  and storeEntries :: "(string \<times> Rule) list \<Rightarrow> store \<Rightarrow> (string \<times> nat) list \<times> store"
where
  "storeRule (Rule f it ch) h =
     (case storeItems it h of
        (i, h) \<Rightarrow> (case storeChildren ch h of (c, h) \<Rightarrow> alloc h (RuleObject f i c)))"
| "storeItems None h = (None, h)"
| "storeItems (Some r) h = (case storeRule r h of (a, h) \<Rightarrow> (Some a, h))"
| "storeChildren None h = (None, h)"
| "storeChildren (Some kvs) h =
     (case storeEntries kvs h of
        (es, h) \<Rightarrow> (case alloc h (DictObject es) of (d, h) \<Rightarrow> (Some d, h)))"
| "storeEntries [] h = ([], h)"
| "storeEntries ((k, r) # rest) h =
     (case storeRule r h of
        (a, h) \<Rightarrow> (case storeEntries rest h of (es, h) \<Rightarrow> ((k, a) # es, h)))"
  by pat_completeness auto
termination
  by (relation "measure (\<lambda>x. case x of
        Inl (Inl (r, h)) \<Rightarrow> 2 * size r
      | Inl (Inr (it, h)) \<Rightarrow> 2 * size_option size it + 1
      | Inr (Inl (ch, h)) \<Rightarrow> 2 * size_option (size_list (size_prod (\<lambda>k. 0) size)) ch + 1
      | Inr (Inr (kvs, h)) \<Rightarrow> 2 * size_list (size_prod (\<lambda>k. 0) size) kvs + 1)")
     auto

text \<open>
  \<open>applyOverrides(ruleTree, overrides)\<close> on a rule tree that outlives the call, such as
  the tree that the cache registry holds: the tree and the appended rules are objects of
  their own in a store, the call runs there, and the result is what the call returns or
  throws together with the value of the given tree after the call. The depth bounds are
  the number of cells, which no tree of the store exceeds.
\<close>

definition applyOverridesShared :: "Rule \<Rightarrow> Overrides \<Rightarrow> (error + Rule) \<times> Rule" where
  "applyOverridesShared ruleTree overrides =
     (case storeRule ruleTree [] of
        (t, h) \<Rightarrow>
          (case (case ov_append overrides of
                   None \<Rightarrow> (None, h)
                 | Some kvs \<Rightarrow> (case storeEntries kvs h of (es, h) \<Rightarrow> (Some es, h))) of
             (app, h) \<Rightarrow>
               (case applyOverridesStore (Suc (length h)) h t
                       \<lparr> ov_include = ov_include overrides, ov_exclude = ov_exclude overrides,
                         ov_optional = ov_optional overrides, ov_required = ov_required overrides,
                         ov_append = app \<rparr> of
                  (result, h) \<Rightarrow>
                    ((case result of
                        Inl e \<Rightarrow> Inl e
                      | Inr root \<Rightarrow>
                          (case readRule (Suc (length h)) h root of
                             None \<Rightarrow> Inl RangeError
                           | Some effectiveTree \<Rightarrow> Inr effectiveTree)),
                     (case readRule (Suc (length h)) h t of
                        None \<Rightarrow> ruleTree
                      | Some left \<Rightarrow> left)))))"

section \<open>The schema introspector (src/unnamed/part_003)\<close>

text \<open>
  The module \<open>mongooseIntrospect\<close>: \<open>mapInstanceToType\<close>, \<open>setNested\<close> and
  \<open>compileRulesFromMongooseSchema\<close>.
  The schema object is external. What the introspector reads of it is modelled: a schema
  either has no \<open>eachPath\<close> function or \<open>eachPath\<close> calls back once per declared path
  with the path and its descriptor; a descriptor has an \<open>instance\<close> name, optional
  \<open>options\<close>, an optional \<open>caster\<close> (the element descriptor of an array) and an optional
  nested \<open>schema\<close>. Of \<open>options.required\<close> only the truthiness is used.
  \<open>options.enum\<close> is absent (\<open>None\<close>), an array, a string, or some other value that is
  truthy and has no \<open>slice\<close> method (such as the object form \<open>{values, message}\<close>).
  \<open>options.match\<close> is absent, a regular-expression object given by its source, or a
  string; the constructor \<open>RegExp\<close> belongs to the language, and a string comes with what
  \<open>new RegExp\<close> makes of it: the source of the object built (which need not be the
  string: a slash is escaped), or nothing when the string is no pattern and the constructor
  throws a SyntaxError. A date bound is given by its epoch milliseconds, so that
  \<open>new Date(b).getTime()\<close> is the bound itself.
\<close>

datatype EnumOption = EnumArray "string list" | EnumString string | EnumOther

datatype MatchOption = MatchRegExp string | MatchString string "string option"

record Options =
  opt_required :: jsval
  opt_enum :: "EnumOption option"
  opt_match :: "MatchOption option"
  opt_minlength :: "int option"
  opt_maxlength :: "int option"
  opt_min :: "int option"
  opt_max :: "int option"
  opt_minItems :: "int option"
  opt_maxItems :: "int option"

datatype SchemaType =
  SchemaType (st_instance: string) (st_options: "Options option")
             (st_caster: "SchemaType option") (st_schema: "Schema option")
and Schema = Schema (eachPath: "(string \<times> SchemaType) list option")

text \<open>The options object \<open>{}\<close>.\<close>

definition noOptions :: Options where
  "noOptions = \<lparr> opt_required = Undefined, opt_enum = None, opt_match = None,
                  opt_minlength = None, opt_maxlength = None, opt_min = None, opt_max = None,
                  opt_minItems = None, opt_maxItems = None \<rparr>"

definition mapInstanceToType :: "string \<Rightarrow> PrimitiveType" where
  "mapInstanceToType inst =
     (if inst = ''String'' then T_string
      else if inst = ''Number'' then T_number
      else if inst = ''Boolean'' then T_boolean
      else if inst = ''Date'' then T_date
      else if inst = ''ObjectID'' then T_objectId
      else if inst = ''Decimal128'' then T_number
      else if inst = ''Buffer'' then T_buffer
      else if inst = ''Array'' then T_array
      else if inst = ''Embedded'' then T_object
      else T_mixed)"

text \<open>
  \<open>setNested(root, path, value)\<close> on the segments of the path: a missing \<open>children\<close>
  map and a missing segment are created on the way. A segment that is no own property but a
  name of \<open>objectPrototypeNames\<close> reads an inherited object; the walk steps onto it and
  line 50 or 57 gives it a \<open>children\<close> property, which every object then inherits or
  sees. The final assignment under \<open>__proto__\<close>, without an own property of that name,
  replaces the prototype of the dictionary.
\<close>

fun setNested :: "Rule \<Rightarrow> string list \<Rightarrow> string \<Rightarrow> Rule \<Rightarrow> error + Rule" where
  "setNested cur [] leaf v =
     (let ch = listOrEmpty (children cur)
      in if leaf = ''__proto__'' \<and> map_of ch leaf = None then Inl OutsideModel
         else Inr (Rule (facets cur) (items cur) (Some (AList.update leaf v ch))))"
| "setNested cur (seg # segs) leaf v =
     (let ch = listOrEmpty (children cur)
      in if map_of ch seg = None \<and> seg \<in> set objectPrototypeNames then Inl OutsideModel
         else
           (let nxt = (case map_of ch seg of None \<Rightarrow> objectNode (Some []) | Some n \<Rightarrow> n)
            in case setNested nxt segs leaf v of
                 Inl e \<Rightarrow> Inl e
               | Inr nxt' \<Rightarrow> Inr (Rule (facets cur) (items cur) (Some (AList.update seg nxt' ch)))))"

text \<open>\<open>p\<close> truthy: a non-empty string or a regular expression.\<close>

fun patternTruthy :: "Pattern option \<Rightarrow> bool" where
  "patternTruthy None = False"
| "patternTruthy (Some (PatternString s)) = (s \<noteq> [])"
| "patternTruthy (Some (RegExp s)) = True"

text \<open>\<open>opts.match\<close> and \<open>opts.enum\<close> truthy.\<close>

fun matchTruthy :: "MatchOption option \<Rightarrow> bool" where
  "matchTruthy None = False"
| "matchTruthy (Some (MatchRegExp src)) = True"
| "matchTruthy (Some (MatchString s made)) = (s \<noteq> [])"

fun enumTruthy :: "EnumOption option \<Rightarrow> bool" where
  "enumTruthy None = False"
| "enumTruthy (Some (EnumArray xs)) = True"
| "enumTruthy (Some (EnumString s)) = (s \<noteq> [])"
| "enumTruthy (Some EnumOther) = True"

text \<open>\<open>m instanceof RegExp ? m : new RegExp(m)\<close>.\<close>

fun toRegExp :: "MatchOption \<Rightarrow> error + Pattern" where
  "toRegExp (MatchRegExp src) = Inr (RegExp src)"
| "toRegExp (MatchString s (Some src)) = Inr (RegExp src)"
| "toRegExp (MatchString s None) = Inl SyntaxError"

text \<open>\<open>new Date(b).getTime()\<close> for a bound given by its epoch milliseconds.\<close>

definition dateGetTime :: "int \<Rightarrow> int" where
  "dateGetTime ms = ms"

text \<open>\<open>rules.enum = undefined\<close>: the property is present afterwards, without a value.\<close>

definition setUndefined :: "string \<Rightarrow> Facets \<Rightarrow> Facets" where
  "setUndefined n f =
     f\<lparr> undefinedProps := (if n \<in> set (undefinedProps f) then undefinedProps f
                             else undefinedProps f @ [n]) \<rparr>"

text \<open>Lines 98-112: the string constraints of a field.\<close>

definition stringRules :: "Options \<Rightarrow> Facets \<Rightarrow> error + Facets" where
  "stringRules opts rules =
     (let rules = (if enumTruthy (opt_enum opts)
                   then (case opt_enum opts of
                           Some (EnumArray xs) \<Rightarrow> rules\<lparr> enum := Some (EnumList xs) \<rparr>
                         | _ \<Rightarrow> setUndefined ''enum'' (rules\<lparr> enum := None \<rparr>))
                   else rules)
      in case (if matchTruthy (opt_match opts)
               then (case toRegExp (the (opt_match opts)) of
                       Inl e \<Rightarrow> Inl e
                     | Inr p \<Rightarrow> Inr (rules\<lparr> pattern := Some p \<rparr>))
               else Inr rules) of
           Inl e \<Rightarrow> Inl e
         | Inr rules \<Rightarrow>
             (let rules = (case opt_minlength opts of None \<Rightarrow> rules
                           | Some n \<Rightarrow> rules\<lparr> minLength := Some n \<rparr>)
              in Inr (case opt_maxlength opts of None \<Rightarrow> rules
                      | Some n \<Rightarrow> rules\<lparr> maxLength := Some n \<rparr>)))"

text \<open>Lines 114-119 and 121-126: the bounds of a number and of a date.\<close>

definition numberRules :: "Options \<Rightarrow> Facets \<Rightarrow> Facets" where
  "numberRules opts rules =
     (let rules = (case opt_min opts of None \<Rightarrow> rules | Some n \<Rightarrow> rules\<lparr> min' := Some n \<rparr>)
      in (case opt_max opts of None \<Rightarrow> rules | Some n \<Rightarrow> rules\<lparr> max' := Some n \<rparr>))"

definition dateRules :: "Options \<Rightarrow> Facets \<Rightarrow> Facets" where
  "dateRules opts rules =
     (let rules = (case opt_min opts of None \<Rightarrow> rules
                   | Some n \<Rightarrow> rules\<lparr> min' := Some (dateGetTime n) \<rparr>)
      in (case opt_max opts of None \<Rightarrow> rules
          | Some n \<Rightarrow> rules\<lparr> max' := Some (dateGetTime n) \<rparr>))"

text \<open>
  Lines 136-148: the string constraints of the items of an array. \<open>cOpts.enum.slice()\<close>
  copies an array, gives the string itself for a string, and throws a TypeError on a value
  without a \<open>slice\<close> method.
\<close>

definition itemStringRules :: "Options \<Rightarrow> Facets \<Rightarrow> error + Facets" where
  "itemStringRules cOpts it =
     (case (if enumTruthy (opt_enum cOpts)
            then (case opt_enum cOpts of
                    Some (EnumArray xs) \<Rightarrow> Inr (it\<lparr> enum := Some (EnumList xs) \<rparr>)
                  | Some (EnumString s) \<Rightarrow> Inr (it\<lparr> enum := Some (EnumText s) \<rparr>)
                  | _ \<Rightarrow> Inl TypeError)
            else Inr it) of
        Inl e \<Rightarrow> Inl e
      | Inr it \<Rightarrow>
          (case (if matchTruthy (opt_match cOpts)
                 then (case toRegExp (the (opt_match cOpts)) of
                         Inl e \<Rightarrow> Inl e
                       | Inr p \<Rightarrow> Inr (it\<lparr> pattern := Some p \<rparr>))
                 else Inr it) of
             Inl e \<Rightarrow> Inl e
           | Inr it \<Rightarrow>
               (let it = (case opt_minlength cOpts of None \<Rightarrow> it
                          | Some n \<Rightarrow> it\<lparr> minLength := Some n \<rparr>)
                in Inr (case opt_maxlength cOpts of None \<Rightarrow> it
                        | Some n \<Rightarrow> it\<lparr> maxLength := Some n \<rparr>))))"

text \<open>Lines 162-165: the length bounds of an array field.\<close>

definition arrayBounds :: "Options \<Rightarrow> Facets \<Rightarrow> Facets" where
  "arrayBounds opts rules =
     (let rules = (case opt_minItems opts of None \<Rightarrow> rules | Some n \<Rightarrow> rules\<lparr> minItems := Some n \<rparr>)
      in (case opt_maxItems opts of None \<Rightarrow> rules | Some n \<Rightarrow> rules\<lparr> maxItems := Some n \<rparr>))"

text \<open>
  \<open>compileRulesFromMongooseSchema(schema)\<close>, with the loop of \<open>eachPath\<close>
  (\<open>walkPaths\<close>), the rule built by the callback for one descriptor (\<open>fieldRule\<close>, lines
  90-171) and the rule of the items of an array (\<open>itemsRule\<close>, lines 132-159). A schema that
  is null or has no \<open>eachPath\<close> makes the call throw; an exception of a nested call ends
  the whole call.
\<close>

fun compileRulesFromMongooseSchema :: "Schema option \<Rightarrow> error + Rule"
  and walkPaths :: "(string \<times> SchemaType) list \<Rightarrow> Rule \<Rightarrow> error + Rule"
  and fieldRule :: "SchemaType \<Rightarrow> error + Rule"
  and itemsRule :: "SchemaType \<Rightarrow> error + Rule"
where
  "compileRulesFromMongooseSchema None = Inl SchemaError"
| "compileRulesFromMongooseSchema (Some (Schema None)) = Inl SchemaError"
| "compileRulesFromMongooseSchema (Some (Schema (Some paths))) =
     walkPaths paths (objectNode (Some []))"
| "walkPaths [] ruleTree = Inr ruleTree"
| "walkPaths ((path, schematype) # rest) ruleTree =
     (case fieldRule schematype of
        Inl e \<Rightarrow> Inl e
      | Inr rules \<Rightarrow>
          (case setNested ruleTree (butlast (split_dot path)) (last (split_dot path)) rules of
             Inl e \<Rightarrow> Inl e
           | Inr ruleTree \<Rightarrow> walkPaths rest ruleTree))"
| "fieldRule (SchemaType inst options caster schema) =
     (let t = mapInstanceToType inst;
          opts = (case options of None \<Rightarrow> noOptions | Some opts \<Rightarrow> opts);
          rules = (typeOnly t)\<lparr> required := Some (truthy (opt_required opts)) \<rparr>
      in case (if t = T_string then stringRules opts rules else Inr rules) of
           Inl e \<Rightarrow> Inl e
         | Inr rules \<Rightarrow>
             (let rules = (if t = T_number then numberRules opts rules else rules);
                  rules = (if t = T_date then dateRules opts rules else rules)
              in case (if t = T_array
                       then (case caster of
                               None \<Rightarrow> Inr (arrayBounds opts rules, None)
                             | Some c \<Rightarrow>
                                 (case itemsRule c of
                                    Inl e \<Rightarrow> Inl e
                                  | Inr it \<Rightarrow> Inr (arrayBounds opts rules, Some it)))
                       else Inr (rules, None)) of
                   Inl e \<Rightarrow> Inl e
                 | Inr (rules, its) \<Rightarrow>
                     (case schema of
                        None \<Rightarrow> Inr (Rule rules its None)
                      | Some s \<Rightarrow>
                          (case compileRulesFromMongooseSchema (Some s) of
                             Inl e \<Rightarrow> Inl e
                           | Inr sub \<Rightarrow>
                               Inr (Rule (rules\<lparr> type' := Some T_object \<rparr>) its (children sub))))))"
| "itemsRule (SchemaType inst options caster schema) =
     (let itemType = mapInstanceToType inst;
          cOpts = (case options of None \<Rightarrow> noOptions | Some opts \<Rightarrow> opts)
      in case (if itemType = T_string then itemStringRules cOpts (typeOnly itemType)
               else Inr (typeOnly itemType)) of
           Inl e \<Rightarrow> Inl e
         | Inr it \<Rightarrow>
             (let it = (if itemType = T_number then numberRules cOpts it else it)
              in case schema of
                   None \<Rightarrow> Inr (Rule it None None)
                 | Some s \<Rightarrow>
                     (case compileRulesFromMongooseSchema (Some s) of
                        Inl e \<Rightarrow> Inl e
                      | Inr sub \<Rightarrow> Inr (Rule (it\<lparr> type' := Some T_object \<rparr>) None (children sub)))))"


section \<open>The schema emitter (src/dist/cjs/policy.js, lines 217-290)\<close>

text \<open>The property \<open>k: n\<close> of an object literal when \<open>n != null\<close>, no property otherwise.\<close>

definition numProp :: "string \<Rightarrow> int option \<Rightarrow> (string \<times> jsval) list" where
  "numProp k n = (case n of None \<Rightarrow> [] | Some v \<Rightarrow> [(k, Num v)])"

text \<open>\<open>typeof p === 'string' ? p : p.source\<close>.\<close>

fun patternSource :: "Pattern \<Rightarrow> string" where
  "patternSource (PatternString s) = s"
| "patternSource (RegExp s) = s"

text \<open>
  \<open>if (node.enum) schema.enum = node.enum.slice()\<close>: an array is truthy and copied, a
  string is copied when it is not empty.
\<close>

fun enumProp :: "EnumValue option \<Rightarrow> (string \<times> jsval) list" where
  "enumProp None = []"
| "enumProp (Some (EnumList xs)) = [(''enum'', Arr (map Str xs))]"
| "enumProp (Some (EnumText s)) = (if s \<noteq> [] then [(''enum'', Str s)] else [])"

text \<open>
  \<open>nodeToSchema(node)\<close> inside \<open>toJsonSchema(tree, allowUnknown)\<close>. The loop over the
  children fills \<open>properties\<close> and pushes the names of the children whose \<open>required\<close> is
  truthy; \<open>required\<close> is set on the schema only when that list is non-empty.
\<close>

function nodeToSchema :: "bool \<Rightarrow> Rule \<Rightarrow> jsval" where
  "nodeToSchema allowUnknown node =
     (if type' (facets node) = Some T_object then
        (let entries = Object_entries (case children node of None \<Rightarrow> [] | Some ch \<Rightarrow> ch);
             properties = fold (\<lambda>kc props. objAssign (fst kc) (nodeToSchema allowUnknown (snd kc)) props)
                               entries [];
             required = map fst (filter (\<lambda>kc. required (facets (snd kc)) = Some True) entries)
         in Obj ([(''type'', Str ''object''), (''properties'', Obj properties)]
                 @ (if required \<noteq> [] then [(''required'', Arr (map Str required))] else [])
                 @ [(''additionalProperties'', Bool allowUnknown)]))
      else if type' (facets node) = Some T_array then
        (let itemsSchema = (case items node of None \<Rightarrow> Obj [] | Some it \<Rightarrow> nodeToSchema allowUnknown it)
         in Obj ([(''type'', Str ''array''), (''items'', itemsSchema)]
                 @ numProp ''minItems'' (minItems (facets node))
                 @ numProp ''maxItems'' (maxItems (facets node))))
      else if type' (facets node) = Some T_string then
        Obj ([(''type'', Str ''string'')]
             @ numProp ''minLength'' (minLength (facets node))
             @ numProp ''maxLength'' (maxLength (facets node))
             @ (if patternTruthy (pattern (facets node))
                then [(''pattern'', Str (patternSource (the (pattern (facets node)))))] else [])
             @ enumProp (enum (facets node)))
      else if type' (facets node) = Some T_number then
        Obj ([(''type'', Str ''number'')]
             @ numProp ''minimum'' (min' (facets node))
             @ numProp ''maximum'' (max' (facets node)))
      else if type' (facets node) = Some T_boolean then Obj [(''type'', Str ''boolean'')]
      else if type' (facets node) = Some T_date then
        Obj [(''type'', Str ''string''), (''format'', Str ''date-time'')]
      else if type' (facets node) = Some T_objectId then
        Obj [(''type'', Str ''string''), (''pattern'', Str ''^[0-9a-fA-F]{24}$'')]
      else Obj [])"
  by pat_completeness auto
termination
proof (relation "measure (\<lambda>(a, n). size n)")
  show "wf (measure (\<lambda>(a, n). size n))" by simp
next
  fix allowUnknown :: bool and node :: Rule and entries :: "(string \<times> Rule) list"
    and kc :: "string \<times> Rule"
  assume "entries = Object_entries (case children node of None \<Rightarrow> [] | Some ch \<Rightarrow> ch)"
    and "kc \<in> set entries"
  then have "size (snd kc) < size node" using size_entry_less by simp
  then show "((allowUnknown, snd kc), allowUnknown, node) \<in> measure (\<lambda>(a, n). size n)"
    by simp
next
  fix allowUnknown :: bool and node :: Rule and it :: Rule
  assume "items node = Some it"
  then have "size it < size node" by (cases node) simp
  then show "((allowUnknown, it), allowUnknown, node) \<in> measure (\<lambda>(a, n). size n)"
    by simp
qed

definition toJsonSchema :: "Rule \<Rightarrow> bool \<Rightarrow> jsval" where
  "toJsonSchema tree allowUnknown = nodeToSchema allowUnknown (objectNode (children tree))"

text \<open>The schema of claim C8: a required string \<open>username\<close> of length 3 to 64 and an optional number \<open>age\<close> from 13 to 120.\<close>

definition userSchema :: Schema where
  "userSchema = Schema (Some
     [(''username'', SchemaType ''String''
         (Some (noOptions\<lparr> opt_required := Bool True, opt_minlength := Some 3, opt_maxlength := Some 64 \<rparr>))
         None None),
      (''age'', SchemaType ''Number''
         (Some (noOptions\<lparr> opt_min := Some 13, opt_max := Some 120 \<rparr>)) None None)])"

section \<open>The override key (src/dist/cjs/cacheRegistry.js, lines 80-91)\<close>

text \<open>
  \<open>JSON.stringify(value, K)\<close> with an array \<open>K\<close> of property names and no indentation.
  The names of \<open>K\<close> are the only properties serialised, of every object at every depth,
  and they are written in the order of \<open>K\<close>; a property whose value is undefined is
  left out; an undefined element of an array is written \<open>null\<close>.
\<close>

definition hexDigit :: "int \<Rightarrow> char" where
  "hexDigit n = (if n < 10 then char_of (48 + n) else char_of (87 + n))"

text \<open>QuoteJSONString: the escapes of the quotation mark, the backslash and the control characters.\<close>

definition quoteChar :: "char \<Rightarrow> string" where
  "quoteChar c =
     (if c = CHR 0x08 then [CHR 0x5C, CHR ''b'']
      else if c = CHR 0x09 then [CHR 0x5C, CHR ''t'']
      else if c = CHR 0x0A then [CHR 0x5C, CHR ''n'']
      else if c = CHR 0x0C then [CHR 0x5C, CHR ''f'']
      else if c = CHR 0x0D then [CHR 0x5C, CHR ''r'']
      else if c = CHR 0x22 then [CHR 0x5C, CHR 0x22]
      else if c = CHR 0x5C then [CHR 0x5C, CHR 0x5C]
      else if (of_char c :: int) < 32
        then [CHR 0x5C, CHR ''u'', CHR ''0'', CHR ''0'',
              hexDigit (of_char c div 16), hexDigit (of_char c mod 16)]
      else [c])"

definition QuoteJSONString :: "string \<Rightarrow> string" where
  "QuoteJSONString s = [CHR 0x22] @ concat (map quoteChar s) @ [CHR 0x22]"

function digitsOf :: "int \<Rightarrow> string" where
  "digitsOf n = (if n < 10 then [char_of (48 + n)] else digitsOf (n div 10) @ [char_of (48 + n mod 10)])"
  by pat_completeness auto
termination
  by (relation "measure nat") auto

text \<open>
  Number::toString of an integer: the decimal numeral below \<open>10^21\<close>; from there on the
  first significant digit, the further ones after a point, and the decimal exponent.
\<close>

definition stripZeros :: "string \<Rightarrow> string" where
  "stripZeros ds = rev (dropWhile (\<lambda>c. c = CHR ''0'') (rev ds))"

definition exponentForm :: "string \<Rightarrow> string" where
  "exponentForm ds =
     (case stripZeros ds of
        [] \<Rightarrow> ds
      | d # further \<Rightarrow>
          [d] @ (if further = [] then [] else ''.'' @ further) @ ''e+''
          @ digitsOf (int (length ds) - 1))"

definition NumberToString :: "int \<Rightarrow> string" where
  "NumberToString n =
     (let ds = digitsOf \<bar>n\<bar>;
          text = (if length ds \<le> 21 then ds else exponentForm ds)
      in if n < 0 then ''-'' @ text else text)"

fun joinComma :: "string list \<Rightarrow> string" where
  "joinComma [] = []"
| "joinComma [x] = x"
| "joinComma (x # y # ys) = x @ '','' @ joinComma (y # ys)"

function SerializeJSONProperty :: "string list \<Rightarrow> jsval \<Rightarrow> string option" where
  "SerializeJSONProperty K Undefined = None"
| "SerializeJSONProperty K Null = Some ''null''"
| "SerializeJSONProperty K (Bool b) = Some (if b then ''true'' else ''false'')"
| "SerializeJSONProperty K (Num n) = Some (NumberToString n)"
| "SerializeJSONProperty K (Str s) = Some (QuoteJSONString s)"
| "SerializeJSONProperty K (Arr xs) =
     Some (''['' @ joinComma (map (\<lambda>x. case SerializeJSONProperty K x of
                                           None \<Rightarrow> ''null'' | Some t \<Rightarrow> t) xs) @ '']'')"
| "SerializeJSONProperty K (Obj kvs) =
     Some (''{'' @ joinComma (concat (map (\<lambda>P. case map_of kvs P of
                                                  None \<Rightarrow> []
                                                | Some v \<Rightarrow>
                                                    (case SerializeJSONProperty K v of
                                                       None \<Rightarrow> []
                                                     | Some t \<Rightarrow> [QuoteJSONString P @ '':'' @ t])) K))
           @ ''}'')"
  by pat_completeness auto
termination
proof (relation "measure (\<lambda>(K, v). size v)")
  show "wf (measure (\<lambda>(K, v). size v))" by simp
next
  fix K :: "string list" and xs :: "jsval list" and x :: jsval
  assume "x \<in> set xs"
  then have "size x < size (Arr xs)" by (induction xs) auto
  then show "((K, x), K, Arr xs) \<in> measure (\<lambda>(K, v). size v)" by simp
next
  fix K :: "string list" and kvs :: "(string \<times> jsval) list" and P :: string and v :: jsval
  assume "map_of kvs P = Some v"
  then have "(P, v) \<in> set kvs" by (rule map_of_SomeD)
  then have "size v < size (Obj kvs)" by (induction kvs) auto
  then show "((K, v), K, Obj kvs) \<in> measure (\<lambda>(K, v). size v)" by simp
qed


text \<open>
  \<open>makeOverrideKey(overrides)\<close>; the argument is the list of the properties of the
  object passed.
\<close>

definition overrideData :: "(string \<times> jsval) list \<Rightarrow> (string \<times> jsval) list" where
  "overrideData overrides =
     [(''include'', js_or (js_get overrides ''include'') Null),
      (''exclude'', js_or (js_get overrides ''exclude'') Null),
      (''optional'', js_or (js_get overrides ''optional'') Null),
      (''required'', js_or (js_get overrides ''required'') Null),
      (''append'', js_or (js_get overrides ''append'') Null),
      (''allowUnknown'', Bool (truthy (js_get overrides ''allowUnknown''))),
      (''coerceTypes'', Bool (truthy (js_get overrides ''coerceTypes'')))]"

definition makeOverrideKey :: "(string \<times> jsval) list \<Rightarrow> string" where
  "makeOverrideKey overrides =
     (case SerializeJSONProperty (sort (map fst (overrideData overrides)))
             (Obj (overrideData overrides)) of
        None \<Rightarrow> []
      | Some key \<Rightarrow> key)"


text \<open>
  Structural equality of plain data as the specification words it: equal up to the order of
  the keys of objects and up to a property being undefined or absent.
\<close>

inductive js_equiv :: "jsval \<Rightarrow> jsval \<Rightarrow> bool" where
  equiv_Undefined: "js_equiv Undefined Undefined"
| equiv_Null: "js_equiv Null Null"
| equiv_Bool: "js_equiv (Bool b) (Bool b)"
| equiv_Num: "js_equiv (Num n) (Num n)"
| equiv_Str: "js_equiv (Str s) (Str s)"
| equiv_Arr: "list_all2 js_equiv xs ys \<Longrightarrow> js_equiv (Arr xs) (Arr ys)"
| equiv_Obj: "(\<And>k. js_equiv (js_get a k) (js_get b k)) \<Longrightarrow> js_equiv (Obj a) (Obj b)"

section \<open>Rules and overrides as plain objects\<close>

text \<open>
  Where a rule or an overrides object is handled as plain data (copied with a spread,
  serialised into the override key), it is the object of its own properties, in the
  order of the interface declaration; a property that is present with the value undefined
  is listed with \<open>Undefined\<close>. A regular-expression object has no enumerable property of
  its own.
\<close>

fun typeName :: "PrimitiveType \<Rightarrow> string" where
  "typeName T_string = ''string''"
| "typeName T_number = ''number''"
| "typeName T_boolean = ''boolean''"
| "typeName T_date = ''date''"
| "typeName T_objectId = ''objectId''"
| "typeName T_array = ''array''"
| "typeName T_object = ''object''"
| "typeName T_mixed = ''mixed''"
| "typeName T_buffer = ''buffer''"

fun patternToJs :: "Pattern \<Rightarrow> jsval" where
  "patternToJs (PatternString s) = Str s"
| "patternToJs (RegExp s) = Obj []"

fun enumToJs :: "EnumValue \<Rightarrow> jsval" where
  "enumToJs (EnumList xs) = Arr (map Str xs)"
| "enumToJs (EnumText s) = Str s"

definition optProp :: "string \<Rightarrow> ('a \<Rightarrow> jsval) \<Rightarrow> 'a option \<Rightarrow> (string \<times> jsval) list" where
  "optProp k f v = (case v of None \<Rightarrow> [] | Some x \<Rightarrow> [(k, f x)])"

definition undefProp :: "string list \<Rightarrow> string \<Rightarrow> (string \<times> jsval) list" where
  "undefProp undefs k = (if k \<in> set undefs then [(k, Undefined)] else [])"

definition ruleProp ::
  "string list \<Rightarrow> string \<Rightarrow> ('a \<Rightarrow> jsval) \<Rightarrow> 'a option \<Rightarrow> (string \<times> jsval) list" where
  "ruleProp undefs k f v = (case v of None \<Rightarrow> undefProp undefs k | Some x \<Rightarrow> [(k, f x)])"

fun ruleProps :: "Rule \<Rightarrow> (string \<times> jsval) list" where
  "ruleProps (Rule f it ch) =
     ruleProp (undefinedProps f) ''type'' (\<lambda>t. Str (typeName t)) (type' f)
     @ ruleProp (undefinedProps f) ''required'' Bool (required f)
     @ ruleProp (undefinedProps f) ''minLength'' Num (minLength f)
     @ ruleProp (undefinedProps f) ''maxLength'' Num (maxLength f)
     @ ruleProp (undefinedProps f) ''pattern'' patternToJs (pattern f)
     @ ruleProp (undefinedProps f) ''enum'' enumToJs (enum f)
     @ ruleProp (undefinedProps f) ''min'' Num (min' f)
     @ ruleProp (undefinedProps f) ''max'' Num (max' f)
     @ (case it of None \<Rightarrow> undefProp (undefinedProps f) ''items''
        | Some r \<Rightarrow> [(''items'', Obj (ruleProps r))])
     @ ruleProp (undefinedProps f) ''minItems'' Num (minItems f)
     @ ruleProp (undefinedProps f) ''maxItems'' Num (maxItems f)
     @ (case ch of None \<Rightarrow> undefProp (undefinedProps f) ''children''
        | Some kvs \<Rightarrow> [(''children'', Obj (map (\<lambda>kr. (fst kr, Obj (ruleProps (snd kr)))) kvs))])"

record ValidatorOptions =
  vo_coerceTypes :: "bool option"
  vo_allowUnknown :: "bool option"

text \<open>\<open>!!options.flag\<close>.\<close>

definition flagSet :: "bool option \<Rightarrow> bool" where
  "flagSet b = (case b of None \<Rightarrow> False | Some v \<Rightarrow> v)"

text \<open>The object \<open>{ ...overrides, ...options }\<close>.\<close>

definition spreadOverridesOptions :: "Overrides \<Rightarrow> ValidatorOptions \<Rightarrow> (string \<times> jsval) list" where
  "spreadOverridesOptions overrides options =
     optProp ''include'' (\<lambda>xs. Arr (map Str xs)) (ov_include overrides)
     @ optProp ''exclude'' (\<lambda>xs. Arr (map Str xs)) (ov_exclude overrides)
     @ optProp ''optional'' (\<lambda>xs. Arr (map Str xs)) (ov_optional overrides)
     @ optProp ''required'' (\<lambda>xs. Arr (map Str xs)) (ov_required overrides)
     @ optProp ''append'' (\<lambda>kvs. Obj (map (\<lambda>kr. (fst kr, Obj (ruleProps (snd kr)))) kvs))
         (ov_append overrides)
     @ optProp ''coerceTypes'' Bool (vo_coerceTypes options)
     @ optProp ''allowUnknown'' Bool (vo_allowUnknown options)"

section \<open>The cache registry (src/dist/cjs/cacheRegistry.js)\<close>

text \<open>
  Objects that are compared or used as keys by identity carry a reference: a schema object
  is its reference and what the introspector reads of it; a compiled rule tree is the
  reference of its root object and its value. The state threaded through the calls holds
  the five module-level caches, the number of root objects that calls of the compiler on
  schema objects have created so far and the log of the schema references on which such a
  call invoked \<open>eachPath\<close> (the walks of nested schemas belong to the value computed and
  are not logged). A call returns its result, or the exception it threw, together with the
  state it left.
\<close>

record SchemaObj =
  schemaRef :: nat
  schemaBody :: Schema

record RuleTreeObj =
  treeRef :: nat
  treeValue :: Rule

record World =
  ruleTreeCache :: "nat \<rightharpoonup> RuleTreeObj"
  jsonSchemaCache :: "nat \<rightharpoonup> (string \<rightharpoonup> jsval)"
  ajvValidatorCache :: "nat \<rightharpoonup> (string \<rightharpoonup> ValidateFn)"
  NullSchemaJsonCache :: "string \<rightharpoonup> jsval"
  NullSchemaValidatorCache :: "string \<rightharpoonup> ValidateFn"
  allocated :: nat
  eachPathCalls :: "nat list"

definition emptyWorld :: World where
  "emptyWorld = \<lparr> ruleTreeCache = Map.empty, jsonSchemaCache = Map.empty,
                   ajvValidatorCache = Map.empty, NullSchemaJsonCache = Map.empty,
                   NullSchemaValidatorCache = Map.empty, allocated = 0, eachPathCalls = [] \<rparr>"

text \<open>
  The sentinel of line 49, \<open>{ type: 'object', fields: {} }\<close>. What \<open>getOrSetRuleTree\<close>
  returns is this sentinel or a compiled tree.
\<close>

definition EMPTY_RULE_TREE :: jsval where
  "EMPTY_RULE_TREE = Obj [(''type'', Str ''object''), (''fields'', Obj [])]"

datatype TreeResult = Sentinel | Compiled RuleTreeObj

text \<open>The properties of the returned object, and the rule that the typed readers see in it.\<close>

fun treeObject :: "TreeResult \<Rightarrow> jsval" where
  "treeObject Sentinel = EMPTY_RULE_TREE"
| "treeObject (Compiled t) = Obj (ruleProps (treeValue t))"

fun treeRule :: "TreeResult \<Rightarrow> Rule" where
  "treeRule Sentinel = Rule (typeOnly T_object) None None"
| "treeRule (Compiled t) = treeValue t"

text \<open>
  A call of the exported \<open>compileRulesFromMongooseSchema\<close> on a schema object: the root
  \<open>{ type: 'object', children: {} }\<close> is a new object, and \<open>schema.eachPath\<close> is called
  when the schema has it.
\<close>

definition compileRulesFromMongooseSchema_call ::
  "SchemaObj \<Rightarrow> World \<Rightarrow> (error + RuleTreeObj) \<times> World" where
  "compileRulesFromMongooseSchema_call schema w =
     (let root = allocated w;
          w = w\<lparr> allocated := Suc (allocated w) \<rparr>
      in case eachPath (schemaBody schema) of
           None \<Rightarrow> (Inl SchemaError, w)
         | Some paths \<Rightarrow>
             (let w = w\<lparr> eachPathCalls := eachPathCalls w @ [schemaRef schema] \<rparr>
              in case compileRulesFromMongooseSchema (Some (schemaBody schema)) of
                   Inl e \<Rightarrow> (Inl e, w)
                 | Inr t \<Rightarrow> (Inr \<lparr> treeRef = root, treeValue = t \<rparr>, w)))"

text \<open>\<open>getOrSetRuleTree(schema, compileFn)\<close>.\<close>

definition getOrSetRuleTree ::
  "SchemaObj option \<Rightarrow> (SchemaObj \<Rightarrow> World \<Rightarrow> (error + RuleTreeObj) \<times> World) \<Rightarrow> World
   \<Rightarrow> (error + TreeResult) \<times> World" where
  "getOrSetRuleTree schema compileFn w =
     (case schema of
        None \<Rightarrow> (Inr Sentinel, w)
      | Some s \<Rightarrow>
          (case ruleTreeCache w (schemaRef s) of
             Some cached \<Rightarrow> (Inr (Compiled cached), w)
           | None \<Rightarrow>
               (case compileFn s w of
                  (Inl e, w) \<Rightarrow> (Inl e, w)
                | (Inr ruleTree, w) \<Rightarrow>
                    (Inr (Compiled ruleTree),
                     w\<lparr> ruleTreeCache := (ruleTreeCache w)(schemaRef s \<mapsto> ruleTree) \<rparr>))))"

text \<open>
  \<open>getJsonSchemaCache(schema)\<close> and \<open>getAjvValidatorCache(schema)\<close> return a Map object:
  the shared one of the no-schema mode or the bucket of the schema, created when missing.
  The Map is named by \<open>Bucket\<close>; \<open>get\<close> and \<open>set\<close> on it read and write the state.
\<close>

datatype Bucket = NullSchemaBucket | SchemaBucket nat

definition getJsonSchemaCache :: "SchemaObj option \<Rightarrow> World \<Rightarrow> Bucket \<times> World" where
  "getJsonSchemaCache schema w =
     (case schema of
        None \<Rightarrow> (NullSchemaBucket, w)
      | Some s \<Rightarrow>
          (case jsonSchemaCache w (schemaRef s) of
             Some m \<Rightarrow> (SchemaBucket (schemaRef s), w)
           | None \<Rightarrow> (SchemaBucket (schemaRef s),
                      w\<lparr> jsonSchemaCache := (jsonSchemaCache w)(schemaRef s \<mapsto> Map.empty) \<rparr>)))"



fun jsCacheGet :: "Bucket \<Rightarrow> string \<Rightarrow> World \<Rightarrow> jsval option" where
  "jsCacheGet NullSchemaBucket k w = NullSchemaJsonCache w k"
| "jsCacheGet (SchemaBucket r) k w = (case jsonSchemaCache w r of None \<Rightarrow> None | Some m \<Rightarrow> m k)"

fun jsCacheSet :: "Bucket \<Rightarrow> string \<Rightarrow> jsval \<Rightarrow> World \<Rightarrow> World" where
  "jsCacheSet NullSchemaBucket k v w = w\<lparr> NullSchemaJsonCache := (NullSchemaJsonCache w)(k \<mapsto> v) \<rparr>"
| "jsCacheSet (SchemaBucket r) k v w =
     w\<lparr> jsonSchemaCache := (jsonSchemaCache w)
            (r \<mapsto> (case jsonSchemaCache w r of None \<Rightarrow> Map.empty | Some m \<Rightarrow> m)(k \<mapsto> v)) \<rparr>"



section \<open>The validator compiler (src/dist/cjs/ajvEngine.js)\<close>

text \<open>\<open>new Set(xs)\<close> and \<open>set.add(x)\<close> on a set that iterates in insertion order.\<close>

definition setAdd :: "'a \<Rightarrow> 'a list \<Rightarrow> 'a list" where
  "setAdd x xs = (if x \<in> set xs then xs else xs @ [x])"

text \<open>
  \<open>jsonSchemaFromOverrides(overrides, allowUnknown)\<close>, lines 28-71. An entry of
  \<open>append\<close> under the key \<open>__proto__\<close> makes its copy the prototype of
  \<open>properties\<close> (line 36) and deletes \<open>required\<close> from that copy (line 41). The test
  \<open>!properties[key]\<close> of line 46 then finds, for a name that is no own property, the
  property of that copy or else what \<open>Object.prototype\<close> has under the name.
\<close>

definition jsonSchemaFromOverrides :: "Overrides \<Rightarrow> bool \<Rightarrow> jsval" where
  "jsonSchemaFromOverrides overrides allowUnknown =
     (let appendEntries = Object_entries (listOrEmpty (ov_append overrides));
          includedSet = fold setAdd (listOrEmpty (ov_include overrides)) [];
          includedSet = fold setAdd (map fst appendEntries) includedSet;
          properties = fold (\<lambda>(key, def) properties.
                               objAssign key (Obj (AList.delete ''required'' (ruleProps def))) properties)
                            appendEntries [];
          inherited = (case map_of appendEntries ''__proto__'' of
                         None \<Rightarrow> []
                       | Some def \<Rightarrow> AList.delete ''required'' (ruleProps def));
          required' = fold (\<lambda>(key, def) required'.
                              if required (facets def) = Some True then required' @ [key]
                              else required')
                           appendEntries [];
          properties = fold (\<lambda>key properties.
                               if map_of properties key = None \<and> \<not> truthy (js_get inherited key)
                                  \<and> key \<notin> set objectPrototypeNames
                               then objAssign key (Obj [(''type'', Str ''string'')]) properties
                               else properties)
                            includedSet properties;
          required' = (case ov_required overrides of
                         None \<Rightarrow> required'
                       | Some ks \<Rightarrow> fold (\<lambda>k required'. if k \<in> set required' then required'
                                                       else required' @ [k]) ks required');
          required' = (case ov_optional overrides of
                         None \<Rightarrow> required'
                       | Some ks \<Rightarrow> fold (\<lambda>k required'. remove1 k required') ks required')
      in Obj [(''type'', Str ''object''),
              (''properties'', Obj properties),
              (''required'', if required' \<noteq> [] then Arr (map Str required') else Undefined),
              (''additionalProperties'', Bool allowUnknown)])"

text \<open>
  The steps shared by \<open>buildAjvValidator\<close> and \<open>emitJsonSchema\<close>: the JSON Schema of the
  key is read from the cache, and computed and stored when the cache has none.
\<close>

definition cachedJsonSchema :: "Bucket \<Rightarrow> string \<Rightarrow> jsval \<Rightarrow> World \<Rightarrow> jsval \<times> World" where
  "cachedJsonSchema jsCache overrideKey computed w =
     (case jsCacheGet jsCache overrideKey w of
        Some jsonSchema \<Rightarrow> (jsonSchema, w)
      | None \<Rightarrow> (computed, jsCacheSet jsCache overrideKey computed w))"

text \<open>
  The rule tree that \<open>getOrSetRuleTree\<close> returned is the object that the cache holds
  for the schema; after \<open>applyOverrides\<close> ran on it, the cache holds it as the call
  left it.
\<close>

definition leaveRuleTree :: "SchemaObj \<Rightarrow> TreeResult \<Rightarrow> Rule \<Rightarrow> World \<Rightarrow> World" where
  "leaveRuleTree s ruleTree left w =
     (case ruleTree of
        Sentinel \<Rightarrow> w
      | Compiled t \<Rightarrow> w\<lparr> ruleTreeCache := (ruleTreeCache w)(schemaRef s \<mapsto> t\<lparr> treeValue := left \<rparr>) \<rparr>)"

text \<open>\<open>emitJsonSchema(schema, overrides, options)\<close>, lines 192-219.\<close>

definition emitJsonSchema ::
  "SchemaObj option \<Rightarrow> Overrides \<Rightarrow> ValidatorOptions \<Rightarrow> World \<Rightarrow> (error + jsval) \<times> World" where
  "emitJsonSchema schema overrides options w =
     (let overrideKey = makeOverrideKey (spreadOverridesOptions overrides options)
      in case schema of
           None \<Rightarrow>
             (case getJsonSchemaCache schema w of
                (jsCache, w) \<Rightarrow>
                  (case cachedJsonSchema jsCache overrideKey
                          (jsonSchemaFromOverrides overrides (flagSet (vo_allowUnknown options))) w of
                     (jsonSchema, w) \<Rightarrow> (Inr jsonSchema, w)))
         | Some s \<Rightarrow>
             (case getOrSetRuleTree schema compileRulesFromMongooseSchema_call w of
                (Inl e, w) \<Rightarrow> (Inl e, w)
              | (Inr ruleTree, w) \<Rightarrow>
                  (case applyOverridesShared (treeRule ruleTree) overrides of
                     (result, left) \<Rightarrow>
                       (case (result, leaveRuleTree s ruleTree left w) of
                          (Inl e, w) \<Rightarrow> (Inl e, w)
                        | (Inr effectiveTree, w) \<Rightarrow>
                            (case getJsonSchemaCache schema w of
                               (jsCache, w) \<Rightarrow>
                                 (case cachedJsonSchema jsCache overrideKey
                                         (toJsonSchema effectiveTree (flagSet (vo_allowUnknown options))) w of
                                    (jsonSchema, w) \<Rightarrow> (Inr jsonSchema, w)))))))"






text \<open>The options object \<open>{}\<close> and the schema object of the examples.\<close>

definition defaultOptions :: ValidatorOptions where
  "defaultOptions = \<lparr> vo_coerceTypes = None, vo_allowUnknown = None \<rparr>"

definition userSchemaObj :: SchemaObj where
  "userSchemaObj = \<lparr> schemaRef = 0, schemaBody = userSchema \<rparr>"


section \<open>Properties of the validator closure\<close>






section \<open>Properties of the override engine\<close>

text \<open>The equation of \<open>flatten\<close> is applied where it is needed, not by the simplifier.\<close>

declare flatten.simps [simp del]


lemma split_dot_nonempty [simp]: "split_dot s \<noteq> []"
  by (induction s) (auto split: list.splits)

lemma split_dot_snoc: "butlast (split_dot s) @ [last (split_dot s)] = split_dot s"
  by simp





lemma map_of_objAssign:
  "map_of acc ''__proto__'' = None \<Longrightarrow>
   map_of (objAssign k v acc) p = (if p = k \<and> k \<noteq> ''__proto__'' then Some v else map_of acc p)"
  by (auto simp: objAssign_def update_conv')







lemma proto_fold_appendStep:
  "map_of acc ''__proto__'' = None \<Longrightarrow> map_of (fold appendStep es acc) ''__proto__'' = None"
proof (induction es arbitrary: acc)
  case Nil
  then show ?case by simp
next
  case (Cons e es)
  obtain p r where e: "e = (p, r)" by (cases e)
  have "map_of (appendStep e acc) ''__proto__'' = None"
    using Cons.prems by (auto simp: e appendStep_def map_of_objAssign)
  then show ?case using Cons.IH by simp
qed










lemma lookupPath_attachRule_same:
  "attachRule cur segs leaf v = Inr cur' \<Longrightarrow> lookupPath cur' (segs @ [leaf]) = Some v"
proof (induction segs arbitrary: cur cur')
  case Nil
  then show ?case by (auto simp: update_conv' split: option.splits if_splits)
next
  case (Cons seg segs)
  then show ?case
    by (auto simp: update_conv' Let_def split: option.splits sum.splits if_splits)
qed

lemma lookupPath_objectNode_empty:
  "ps \<noteq> [] \<Longrightarrow> lookupPath (objectNode (Some [])) ps = None"
  by (cases ps) (simp_all add: objectNode_def)

lemma attachRule_ConsD:
  assumes "attachRule cur (seg # segs) leaf v = Inr cur'"
  obtains ch nxt' where "children cur = Some ch"
    and "attachRule (case map_of ch seg of None \<Rightarrow> objectNode (Some []) | Some n \<Rightarrow> n) segs leaf v = Inr nxt'"
    and "cur' = Rule (facets cur) (items cur) (Some (AList.update seg nxt' ch))"
  using assms by (auto simp: Let_def split: option.splits sum.splits if_splits)

lemma lookupPath_attachRule_other:
  "attachRule cur segs leaf v = Inr cur' \<Longrightarrow>
   \<not> prefix (segs @ [leaf]) ps \<Longrightarrow> \<not> prefix ps (segs @ [leaf]) \<Longrightarrow>
   lookupPath cur' ps = lookupPath cur ps"
proof (induction segs arbitrary: cur cur' ps)
  case Nil
  then obtain s rest where ps: "ps = s # rest" by (cases ps) auto
  with Nil show ?case
    by (auto simp: update_conv' split: option.splits if_splits)
next
  case (Cons seg segs)
  then obtain s rest where ps: "ps = s # rest" by (cases ps) auto
  from Cons.prems(1) obtain ch nxt' where ch: "children cur = Some ch" and
    att: "attachRule (case map_of ch seg of None \<Rightarrow> objectNode (Some []) | Some n \<Rightarrow> n) segs leaf v = Inr nxt'" and
    cur': "cur' = Rule (facets cur) (items cur) (Some (AList.update seg nxt' ch))"
    by (rule attachRule_ConsD)
  define nxt where "nxt = (case map_of ch seg of None \<Rightarrow> objectNode (Some []) | Some n \<Rightarrow> n)"
  note att = att [folded nxt_def]
  show ?case
  proof (cases "s = seg")
    case False
    with ps ch cur' show ?thesis by (simp add: update_conv')
  next
    case True
    with Cons.prems ps have np1: "\<not> prefix (segs @ [leaf]) rest" and np2: "\<not> prefix rest (segs @ [leaf])"
      by auto
    from np2 have rest_ne: "rest \<noteq> []" by auto
    have "lookupPath nxt' rest = lookupPath nxt rest"
      by (rule Cons.IH [OF att np1 np2])
    moreover have "lookupPath cur' ps = lookupPath nxt' rest"
      using cur' ps True by (simp add: update_conv')
    moreover have "lookupPath cur ps = lookupPath nxt rest"
      using ch ps True rest_ne
      by (auto simp: nxt_def lookupPath_objectNode_empty split: option.splits)
    ultimately show ?thesis by simp
  qed
qed


lemma rebuildLoop_other:
  "rebuildLoop es root = Inr t \<Longrightarrow>
   \<forall>q \<in> fst ` set es. \<not> prefix (split_dot q) ps \<and> \<not> prefix ps (split_dot q) \<Longrightarrow>
   lookupPath t ps = lookupPath root ps"
proof (induction es arbitrary: root)
  case Nil
  then show ?case by simp
next
  case (Cons e es)
  obtain q w where e: "e = (q, w)" by (cases e)
  from Cons.prems(1) e obtain root' where
    att: "attachRule root (butlast (split_dot q)) (last (split_dot q)) w = Inr root'" and
    rest: "rebuildLoop es root' = Inr t"
    by (auto split: sum.splits)
  from Cons.prems(2) e have nq: "\<not> prefix (split_dot q) ps" "\<not> prefix ps (split_dot q)" by auto
  have "lookupPath root' ps = lookupPath root ps"
    using lookupPath_attachRule_other [OF att] nq by simp
  moreover have "lookupPath t ps = lookupPath root' ps"
    using Cons.IH [OF rest] Cons.prems(2) by simp
  ultimately show ?case by simp
qed


lemma visitedAfter_Cons:
  "visitedAfter p (q # qs) = (if q = p then qs else visitedAfter p qs)"
  by (simp add: visitedAfter_def)

lemma rebuildLoop_after:
  "rebuildLoop es root = Inr t \<Longrightarrow> distinct (map fst es) \<Longrightarrow> (p, v) \<in> set es \<Longrightarrow>
   \<forall>q \<in> set (visitedAfter p (map fst es)).
      \<not> prefix (split_dot q) (split_dot p) \<and> \<not> prefix (split_dot p) (split_dot q) \<Longrightarrow>
   lookupPath t (split_dot p) = Some v"
proof (induction es arbitrary: root)
  case Nil
  then show ?case by simp
next
  case (Cons e es)
  obtain q w where e: "e = (q, w)" by (cases e)
  from Cons.prems(1) e obtain root' where
    att: "attachRule root (butlast (split_dot q)) (last (split_dot q)) w = Inr root'" and
    rest: "rebuildLoop es root' = Inr t"
    by (auto split: sum.splits)
  from Cons.prems(2) e have d: "distinct (map fst es)" and qn: "q \<notin> fst ` set es" by auto
  show ?case
  proof (cases "q = p")
    case True
    with Cons.prems(3) e qn have vw: "v = w" by (auto simp: image_iff)
    have "lookupPath root' (split_dot p) = Some v"
      using lookupPath_attachRule_same [OF att] True vw by simp
    moreover have "lookupPath t (split_dot p) = lookupPath root' (split_dot p)"
      using Cons.prems(4) True e
      by (intro rebuildLoop_other [OF rest]) (simp add: visitedAfter_Cons)
    ultimately show ?thesis by simp
  next
    case False
    with Cons.prems(3) e have "(p, v) \<in> set es" by auto
    from Cons.IH [OF rest d this] Cons.prems(4) False e show ?thesis
      by (simp add: visitedAfter_Cons)
  qed
qed


lemma visitedAfter_Nil: "visitedAfter p [] = []"
  by (simp add: visitedAfter_def)

lemma set_visitedAfter: "distinct qs \<Longrightarrow> set (visitedAfter p qs) \<subseteq> set qs - {p}"
  by (induction qs) (auto simp: visitedAfter_Cons visitedAfter_Nil)

lemma rebuildLoop_exact:
  assumes "rebuildLoop es root = Inr t" and d: "distinct (map fst es)" and "(p, v) \<in> set es"
    and un: "\<forall>q \<in> fst ` set es. q \<noteq> p \<longrightarrow>
      \<not> prefix (split_dot q) (split_dot p) \<and> \<not> prefix (split_dot p) (split_dot q)"
  shows "lookupPath t (split_dot p) = Some v"
proof (rule rebuildLoop_after [OF assms(1) d assms(3)], intro ballI)
  fix q assume "q \<in> set (visitedAfter p (map fst es))"
  with set_visitedAfter [OF d, of p] have "q \<in> fst ` set es" "q \<noteq> p" by auto
  with un show "\<not> prefix (split_dot q) (split_dot p) \<and> \<not> prefix (split_dot p) (split_dot q)"
    by blast
qed








text \<open>
  Instances of the spread: a caller's rule with \<open>required: undefined\<close> erases the default
  \<open>required\<close>, and one without \<open>type\<close> gets the default type.
\<close>

lemma mergeRules_example:
  "mergeRules appendDefault (Rule (noFacets\<lparr> minLength := Some 8, undefinedProps := [''required''] \<rparr>) None None)
   = Rule ((typeOnly T_string)\<lparr> minLength := Some 8, undefinedProps := [''required''] \<rparr>) None None
   \<and> mergeRules appendDefault (Rule ((typeOnly T_number)\<lparr> required := Some False \<rparr>) None None)
   = Rule ((typeOnly T_number)\<lparr> required := Some False \<rparr>) None None"
  by code_simp

text \<open>
  An appended path below an appended rule that has \<open>children\<close> and is visited before it:
  the call returns, nothing is visited after \<open>a.b\<close>, and the tree holds \<open>a.b\<close>.
\<close>

lemma append_below_appended_example:
  "applyOverrides (objectNode (Some []))
     (noOverrides\<lparr> ov_append := Some [(''a'', Rule (typeOnly T_object) None (Some [])),
                                         (''a.b'', plainRule T_number)] \<rparr>)
   = Inr (objectNode (Some
       [(''a'', Rule ((typeOnly T_object)\<lparr> required := Some True \<rparr>) None
                  (Some [(''b'', Rule ((typeOnly T_number)\<lparr> required := Some True \<rparr>) None None)]))]))
   \<and> visitedAfter ''a.b'' (rebuildOrder (objectNode (Some []))
        (noOverrides\<lparr> ov_append := Some [(''a'', Rule (typeOnly T_object) None (Some [])),
                                            (''a.b'', plainRule T_number)] \<rparr>)) = []"
  by code_simp

text \<open>
  Instances of the prototype behaviour: an appended \<open>__proto__\<close> leaves no path, a walk
  through an inherited name throws, and an assignment under \<open>__proto__\<close> inside the tree
  is where the model stops.
\<close>

lemma append_proto_example:
  "applyOverrides (objectNode (Some []))
     (noOverrides\<lparr> ov_append := Some [(''__proto__'', plainRule T_number), (''x'', plainRule T_number)] \<rparr>)
   = Inr (objectNode (Some [(''x'', Rule ((typeOnly T_number)\<lparr> required := Some True \<rparr>) None None)]))
   \<and> applyOverrides (objectNode (Some []))
     (noOverrides\<lparr> ov_append := Some [(''toString.a'', plainRule T_number)] \<rparr>) = Inl TypeError
   \<and> applyOverrides (objectNode (Some []))
     (noOverrides\<lparr> ov_append := Some [(''a.__proto__'', plainRule T_number)] \<rparr>) = Inl OutsideModel"
  by code_simp














section \<open>Properties of the introspector and the emitter\<close>

text \<open>
  Claim C8. For the schema with the required string field \<open>username\<close> (minlength 3,
  maxlength 64) and the optional number field \<open>age\<close> (min 13, max 120), introspection
  followed by emission yields an object schema whose \<open>required\<close> list is exactly
  \<open>["username"]\<close>, whose \<open>properties.username\<close> is
  \<open>{type: "string", minLength: 3, maxLength: 64}\<close> and whose \<open>properties.age\<close> is
  \<open>{type: "number", minimum: 13, maximum: 120}\<close>.
\<close>

theorem username_age_round_trip:
  "compileRulesFromMongooseSchema (Some userSchema) =
     Inr (objectNode (Some
       [(''username'', Rule ((typeOnly T_string)\<lparr> required := Some True, minLength := Some 3,
                               maxLength := Some 64 \<rparr>) None None),
        (''age'', Rule ((typeOnly T_number)\<lparr> required := Some False, min' := Some 13,
                          max' := Some 120 \<rparr>) None None)]))
   \<and> toJsonSchema (objectNode (Some
       [(''username'', Rule ((typeOnly T_string)\<lparr> required := Some True, minLength := Some 3,
                               maxLength := Some 64 \<rparr>) None None),
        (''age'', Rule ((typeOnly T_number)\<lparr> required := Some False, min' := Some 13,
                          max' := Some 120 \<rparr>) None None)])) False =
     Obj [(''type'', Str ''object''),
          (''properties'',
             Obj [(''username'', Obj [(''type'', Str ''string''), (''minLength'', Num 3),
                                      (''maxLength'', Num 64)]),
                  (''age'', Obj [(''type'', Str ''number''), (''minimum'', Num 13),
                                 (''maximum'', Num 120)])]),
          (''required'', Arr [Str ''username'']),
          (''additionalProperties'', Bool False)]"
  by code_simp

section \<open>Properties of the override key\<close>

lemma serialize_member:
  "(case map_of kvs P of
      None \<Rightarrow> []
    | Some v \<Rightarrow> (case SerializeJSONProperty K v of None \<Rightarrow> [] | Some t \<Rightarrow> [QuoteJSONString P @ '':'' @ t]))
   = (case SerializeJSONProperty K (js_get kvs P) of
        None \<Rightarrow> [] | Some t \<Rightarrow> [QuoteJSONString P @ '':'' @ t])"
  by (simp add: js_get_def split: option.splits)

lemma js_equiv_serialize:
  "js_equiv x y \<Longrightarrow> SerializeJSONProperty K x = SerializeJSONProperty K y"
proof (induction rule: js_equiv.induct)
  case (equiv_Arr xs ys)
  then have "map (\<lambda>x. case SerializeJSONProperty K x of None \<Rightarrow> ''null'' | Some t \<Rightarrow> t) xs
           = map (\<lambda>x. case SerializeJSONProperty K x of None \<Rightarrow> ''null'' | Some t \<Rightarrow> t) ys"
    by (induction xs ys rule: list_all2_induct) auto
  then show ?case by simp
next
  case (equiv_Obj a b)
  then have "\<And>P. SerializeJSONProperty K (js_get a P) = SerializeJSONProperty K (js_get b P)"
    by simp
  then show ?case by (simp add: serialize_member)
qed simp_all

lemma js_equiv_truthy: "js_equiv x y \<Longrightarrow> truthy x = truthy y"
  by (induction rule: js_equiv.induct) simp_all

lemma js_equiv_or_Null: "js_equiv x y \<Longrightarrow> js_equiv (js_or x Null) (js_or y Null)"
  using js_equiv_truthy [of x y] by (auto simp: js_or_def intro: js_equiv.intros)

lemma js_equiv_ObjD: "js_equiv (Obj a) (Obj b) \<Longrightarrow> js_equiv (js_get a k) (js_get b k)"
  by (erule js_equiv.cases) auto

lemma overrideData_keys: "map fst (overrideData a) = map fst (overrideData b)"
  by (simp add: overrideData_def)

lemma js_equiv_get_Cons:
  assumes "js_equiv v w" and "\<And>k. js_equiv (js_get a k) (js_get b k)"
  shows "js_equiv (js_get ((n, v) # a) k) (js_get ((n, w) # b) k)"
  using assms(1) assms(2) [of k] by (simp add: js_get_def)

lemma js_equiv_get_Nil: "js_equiv (js_get [] k) (js_get [] k)"
  by (simp add: js_get_def equiv_Undefined)

lemma js_equiv_overrideData:
  assumes "js_equiv (Obj a) (Obj b)"
  shows "js_equiv (Obj (overrideData a)) (Obj (overrideData b))"
proof (rule equiv_Obj)
  fix k
  note get = js_equiv_ObjD [OF assms]
  have flag: "js_equiv (Bool (truthy (js_get a n))) (Bool (truthy (js_get b n)))" for n
    using js_equiv_truthy [OF get [of n]] by (simp add: equiv_Bool)
  show "js_equiv (js_get (overrideData a) k) (js_get (overrideData b) k)"
    unfolding overrideData_def
    by (intro js_equiv_get_Cons js_equiv_get_Nil js_equiv_or_Null get flag)
qed

text \<open>
  Claim C6. Two override-plus-options objects that are structurally equal up to the order
  of keys and up to properties being undefined or absent have the same override key.
\<close>

theorem makeOverrideKey_structural:
  assumes "js_equiv (Obj a) (Obj b)"
  shows "makeOverrideKey a = makeOverrideKey b"
proof -
  have "SerializeJSONProperty K (Obj (overrideData a)) = SerializeJSONProperty K (Obj (overrideData b))"
    for K
    by (rule js_equiv_serialize [OF js_equiv_overrideData [OF assms]])
  then show ?thesis
    unfolding makeOverrideKey_def overrideData_keys [of a b] by (simp only:)
qed


lemma js_equiv_refl: "js_equiv x x"
proof (induction x)
  case (Arr xs)
  then have "list_all2 js_equiv xs xs" by (simp add: list_all2_same)
  then show ?case by (rule equiv_Arr)
next
  case (Obj kvs)
  show ?case
  proof (rule equiv_Obj)
    fix k
    show "js_equiv (js_get kvs k) (js_get kvs k)"
    proof (cases "map_of kvs k")
      case None
      then show ?thesis by (simp add: js_get_def equiv_Undefined)
    next
      case (Some v)
      then have "(k, v) \<in> set kvs" by (rule map_of_SomeD)
      then have "js_equiv v v" using Obj.IH [of "(k, v)" v] by simp
      with Some show ?thesis by (simp add: js_get_def)
    qed
  qed
qed (rule js_equiv.intros)+

lemma js_equiv_ObjI:
  assumes "\<And>k. k \<in> fst ` set a \<union> fst ` set b \<Longrightarrow> js_equiv (js_get a k) (js_get b k)"
  shows "js_equiv (Obj a) (Obj b)"
proof (rule equiv_Obj)
  fix k
  show "js_equiv (js_get a k) (js_get b k)"
  proof (cases "k \<in> fst ` set a \<union> fst ` set b")
    case True
    then show ?thesis by (rule assms)
  next
    case False
    then have "map_of a k = None" "map_of b k = None" by (simp_all add: map_of_eq_None_iff)
    then show ?thesis by (simp add: js_get_def equiv_Undefined)
  qed
qed

theorem makeOverrideKey_structural_witness:
  "makeOverrideKey
     [(''include'', Arr [Str ''a'']),
      (''append'', Obj [(''required'', Obj [(''type'', Str ''string''), (''required'', Bool True)])]),
      (''exclude'', Undefined), (''coerceTypes'', Bool True)]
   = makeOverrideKey
     [(''coerceTypes'', Bool True),
      (''append'', Obj [(''required'', Obj [(''required'', Bool True), (''minLength'', Undefined),
                                             (''type'', Str ''string'')])]),
      (''include'', Arr [Str ''a''])]"
proof (rule makeOverrideKey_structural)
  have inner: "js_equiv (Obj [(''type'', Str ''string''), (''required'', Bool True)])
                 (Obj [(''required'', Bool True), (''minLength'', Undefined), (''type'', Str ''string'')])"
  proof (rule js_equiv_ObjI)
    fix k :: string
    assume "k \<in> fst ` set [(''type'', Str ''string''), (''required'', Bool True)] \<union>
                fst ` set [(''required'', Bool True), (''minLength'', Undefined), (''type'', Str ''string'')]"
    then have "k = ''type'' \<or> k = ''required'' \<or> k = ''minLength''" by auto
    then show "js_equiv (js_get [(''type'', Str ''string''), (''required'', Bool True)] k)
                 (js_get [(''required'', Bool True), (''minLength'', Undefined), (''type'', Str ''string'')] k)"
      by (elim disjE) (simp_all add: js_get_def js_equiv_refl)
  qed
  have app: "js_equiv (Obj [(''required'', Obj [(''type'', Str ''string''), (''required'', Bool True)])])
                 (Obj [(''required'', Obj [(''required'', Bool True), (''minLength'', Undefined),
                                             (''type'', Str ''string'')])])"
  proof (rule js_equiv_ObjI)
    fix k :: string
    assume "k \<in> fst ` set [(''required'', Obj [(''type'', Str ''string''), (''required'', Bool True)])] \<union>
                fst ` set [(''required'', Obj [(''required'', Bool True), (''minLength'', Undefined),
                                             (''type'', Str ''string'')])]"
    then have "k = ''required''" by auto
    then show "js_equiv (js_get [(''required'', Obj [(''type'', Str ''string''), (''required'', Bool True)])] k)
                 (js_get [(''required'', Obj [(''required'', Bool True), (''minLength'', Undefined),
                                             (''type'', Str ''string'')])] k)"
      using inner by (simp add: js_get_def)
  qed
  show "js_equiv
     (Obj [(''include'', Arr [Str ''a'']),
      (''append'', Obj [(''required'', Obj [(''type'', Str ''string''), (''required'', Bool True)])]),
      (''exclude'', Undefined), (''coerceTypes'', Bool True)])
     (Obj [(''coerceTypes'', Bool True),
      (''append'', Obj [(''required'', Obj [(''required'', Bool True), (''minLength'', Undefined),
                                             (''type'', Str ''string'')])]),
      (''include'', Arr [Str ''a''])])"
  proof (rule js_equiv_ObjI)
    fix k :: string
    assume "k \<in> fst ` set [(''include'', Arr [Str ''a'']),
      (''append'', Obj [(''required'', Obj [(''type'', Str ''string''), (''required'', Bool True)])]),
      (''exclude'', Undefined), (''coerceTypes'', Bool True)] \<union>
       fst ` set [(''coerceTypes'', Bool True),
      (''append'', Obj [(''required'', Obj [(''required'', Bool True), (''minLength'', Undefined),
                                             (''type'', Str ''string'')])]),
      (''include'', Arr [Str ''a''])]"
    then have "k = ''include'' \<or> k = ''append'' \<or> k = ''exclude'' \<or> k = ''coerceTypes''" by auto
    then show "js_equiv (js_get [(''include'', Arr [Str ''a'']),
      (''append'', Obj [(''required'', Obj [(''type'', Str ''string''), (''required'', Bool True)])]),
      (''exclude'', Undefined), (''coerceTypes'', Bool True)] k)
       (js_get [(''coerceTypes'', Bool True),
      (''append'', Obj [(''required'', Obj [(''required'', Bool True), (''minLength'', Undefined),
                                             (''type'', Str ''string'')])]),
      (''include'', Arr [Str ''a''])] k)"
      using app by (elim disjE) (simp_all add: js_get_def js_equiv_refl)
  qed
qed

section \<open>Properties of the cache registry and the validator compiler\<close>

text \<open>
  What \<open>getOrSetRuleTree\<close> does for a schema object: after a call that returned a tree,
  a second call with the same schema reference returns the same tree object and leaves the
  state as it is, so the compile function is not called again.
\<close>

lemma getOrSetRuleTree_cached:
  assumes "getOrSetRuleTree (Some s) compileFn w = (Inr t, w1)"
  shows "getOrSetRuleTree (Some s) compileFn w1 = (Inr t, w1)"
proof (cases "ruleTreeCache w (schemaRef s)")
  case (Some cached)
  with assms show ?thesis by (auto simp: getOrSetRuleTree_def)
next
  case None
  with assms obtain rt w' where c: "compileFn s w = (Inr rt, w')"
    and t: "t = Compiled rt"
    and w1: "w1 = w'\<lparr> ruleTreeCache := (ruleTreeCache w')(schemaRef s \<mapsto> rt) \<rparr>"
    by (auto simp: getOrSetRuleTree_def split: prod.splits sum.splits)
  then show ?thesis by (simp add: getOrSetRuleTree_def)
qed

text \<open>
  Claim C4 says that the exported compiler, called twice with the same schema reference,
  returns the identical cached tree and does not walk the schema again. The exported
  function is \<open>compileRulesFromMongooseSchema\<close> itself, which has no cache: on the
  schema object of claim C8 two calls return two root objects (references 0 and 1) of equal
  value, and \<open>eachPath\<close> is called on the schema both times.
\<close>

theorem compile_twice_fresh_trees:
  "fst (compileRulesFromMongooseSchema_call userSchemaObj emptyWorld) =
     Inr \<lparr> treeRef = 0, treeValue = objectNode (Some
       [(''username'', Rule ((typeOnly T_string)\<lparr> required := Some True, minLength := Some 3,
                               maxLength := Some 64 \<rparr>) None None),
        (''age'', Rule ((typeOnly T_number)\<lparr> required := Some False, min' := Some 13,
                          max' := Some 120 \<rparr>) None None)]) \<rparr>
   \<and> fst (compileRulesFromMongooseSchema_call userSchemaObj
            (snd (compileRulesFromMongooseSchema_call userSchemaObj emptyWorld))) =
     Inr \<lparr> treeRef = 1, treeValue = objectNode (Some
       [(''username'', Rule ((typeOnly T_string)\<lparr> required := Some True, minLength := Some 3,
                               maxLength := Some 64 \<rparr>) None None),
        (''age'', Rule ((typeOnly T_number)\<lparr> required := Some False, min' := Some 13,
                          max' := Some 120 \<rparr>) None None)]) \<rparr>
   \<and> eachPathCalls (snd (compileRulesFromMongooseSchema_call userSchemaObj
            (snd (compileRulesFromMongooseSchema_call userSchemaObj emptyWorld)))) = [0, 0]"
  by code_simp

lemma not_equiv_sentinel:
  "\<not> js_equiv EMPTY_RULE_TREE (Obj [(''type'', Str ''object''), (''children'', Obj [])])"
proof
  assume "js_equiv EMPTY_RULE_TREE (Obj [(''type'', Str ''object''), (''children'', Obj [])])"
  then have "js_equiv (js_get [(''type'', Str ''object''), (''fields'', Obj [])] ''children'')
               (js_get [(''type'', Str ''object''), (''children'', Obj [])] ''children'')"
    unfolding EMPTY_RULE_TREE_def by (rule js_equiv_ObjD)
  then have "js_equiv Undefined (Obj [])" by (simp add: js_get_def)
  then show False by (rule js_equiv.cases) simp_all
qed

text \<open>
  Claim C5 says that for a null or undefined schema \<open>getOrSetRuleTree\<close> skips the compile
  function and returns the sentinel \<open>{type: 'object', children: {}}\<close>. The compile
  function is skipped (the state is returned as it was, for every compile function), but
  the object returned is \<open>{type: 'object', fields: {}}\<close>: it has no \<open>children\<close>
  property and is not structurally equal to the sentinel of the claim.
\<close>

theorem null_schema_returns_fields_sentinel:
  "getOrSetRuleTree None compileFn w = (Inr Sentinel, w)
   \<and> treeObject Sentinel = Obj [(''type'', Str ''object''), (''fields'', Obj [])]
   \<and> js_get [(''type'', Str ''object''), (''fields'', Obj [])] ''children'' = Undefined
   \<and> \<not> js_equiv (treeObject Sentinel) (Obj [(''type'', Str ''object''), (''children'', Obj [])])"
  using not_equiv_sentinel
  by (simp add: getOrSetRuleTree_def EMPTY_RULE_TREE_def js_get_def)














text \<open>
  The cached rule tree after a call that wrote into it: the cache holds for the schema the
  tree \<open>{a: {type: 'mixed', children: {}}}\<close>, and \<open>emitJsonSchema\<close> with
  \<open>append = {"a.b": {type: 'string'}}\<close> leaves it with the child \<open>b\<close>.
\<close>

lemma emit_writes_cached_tree:
  "map_option treeValue
     (ruleTreeCache
        (snd (emitJsonSchema (Some userSchemaObj)
                (noOverrides\<lparr> ov_append := Some [(''a.b'', plainRule T_string)] \<rparr>) defaultOptions
                (emptyWorld\<lparr> ruleTreeCache :=
                   [0 \<mapsto> \<lparr> treeRef = 0,
                            treeValue = objectNode (Some [(''a'', Rule (typeOnly T_mixed) None (Some []))]) \<rparr>] \<rparr>)))
        0)
   = Some (objectNode (Some [(''a'', Rule (typeOnly T_mixed) None
             (Some [(''b'', Rule ((typeOnly T_string)\<lparr> required := Some True \<rparr>) None None)]))]))"
  by code_simp


text \<open>
  Why the key ignores \<open>append\<close>: an object none of whose property names is in the
  replacer array is written \<open>{}\<close>, whatever it holds.
\<close>

lemma serialize_filtered_object:
  assumes "fst ` set kvs \<inter> set K = {}"
  shows "SerializeJSONProperty K (Obj kvs) = Some ''{}''"
proof -
  have none: "map_of kvs P = None" if "P \<in> set K" for P
    using assms that by (auto simp: map_of_eq_None_iff)
  have gen: "concat (map (\<lambda>P. case map_of kvs P of
                         None \<Rightarrow> []
                       | Some v \<Rightarrow>
                           (case SerializeJSONProperty K v of
                              None \<Rightarrow> []
                            | Some t \<Rightarrow> [QuoteJSONString P @ '':'' @ t])) L) = []"
    if "set L \<subseteq> set K" for L
    using that by (induction L) (simp_all add: none)
  have c: "concat (map (\<lambda>P. case map_of kvs P of
                         None \<Rightarrow> []
                       | Some v \<Rightarrow>
                           (case SerializeJSONProperty K v of
                              None \<Rightarrow> []
                            | Some t \<Rightarrow> [QuoteJSONString P @ '':'' @ t])) K) = []"
    by (rule gen) simp
  show ?thesis
    by (simp only: SerializeJSONProperty.simps c) simp
qed








section \<open>Properties of the override engine on the store\<close>

text \<open>
  On a tree without shared objects the store model and the value model agree; examples,
  one of a call that returns and one of a call that throws.
\<close>

lemma store_value_agree_examples:
  "fst (applyOverridesShared (objectNode (Some [(''a'', plainRule T_string), (''b'', plainRule T_string)]))
          (noOverrides\<lparr> ov_include := Some [''a'', ''b''], ov_exclude := Some [''b''],
                         ov_append := Some [(''a.x'', plainRule T_number)] \<rparr>))
   = applyOverrides (objectNode (Some [(''a'', plainRule T_string), (''b'', plainRule T_string)]))
          (noOverrides\<lparr> ov_include := Some [''a'', ''b''], ov_exclude := Some [''b''],
                         ov_append := Some [(''a.x'', plainRule T_number)] \<rparr>)
   \<and> applyOverrides (objectNode (Some [(''a'', plainRule T_string), (''b'', plainRule T_string)]))
          (noOverrides\<lparr> ov_include := Some [''a'', ''b''], ov_exclude := Some [''b''],
                         ov_append := Some [(''a.x'', plainRule T_number)] \<rparr>) = Inl TypeError"
  by code_simp


lemma applyOverridesS_agrees_example:
  "(case applyOverridesS 5
            [RuleObject (typeOnly T_object) None (Some 1),
             DictObject [(''username'', 2), (''password'', 3)],
             RuleObject (typeOnly T_string) None None,
             RuleObject (typeOnly T_string) None None,
             RuleObject ((typeOnly T_string)\<lparr> required := Some True \<rparr>) None None] 0
            \<lparr> ov_include = None, ov_exclude = Some [''password''], ov_optional = None,
              ov_required = None, ov_append = Some [(''password'', 4)] \<rparr> of
         Inl e \<Rightarrow> Inl e
       | Inr (root, h) \<Rightarrow> Inr (readRule 5 h root))
   = map_sum id Some
       (applyOverrides (objectNode (Some [(''username'', plainRule T_string), (''password'', plainRule T_string)]))
          (noOverrides\<lparr> ov_exclude := Some [''password''],
             ov_append := Some [(''password'', Rule ((typeOnly T_string)\<lparr> required := Some True \<rparr>) None None)] \<rparr>))"
  by code_simp

text \<open>
  Claim C7 says that \<open>applyOverrides\<close> never changes its input tree. The clone of a kept
  rule shares the \<open>children\<close> object of the original, and the rebuild loop writes into
  it: for the base tree \<open>{a: {type: 'mixed', children: {}}}\<close> and
  \<open>append = {"a.b": {type: 'string'}}\<close>, held in a store of five cells with the
  input root at address 0, the call returns a new root (address 8), and the tree read at the
  input address is, after the call,
  \<open>{a: {type: 'mixed', children: {b: {type: 'string', required: true}}}}\<close>.
\<close>

theorem applyOverrides_changes_shared_children:
  "readRule 5
     [RuleObject (typeOnly T_object) None (Some 1),
      DictObject [(''a'', 2)],
      RuleObject (typeOnly T_mixed) None (Some 3),
      DictObject [],
      RuleObject (typeOnly T_string) None None] 0
   = Some (objectNode (Some [(''a'', Rule (typeOnly T_mixed) None (Some []))]))
   \<and> map_sum id fst (applyOverridesS 5
            [RuleObject (typeOnly T_object) None (Some 1),
             DictObject [(''a'', 2)],
             RuleObject (typeOnly T_mixed) None (Some 3),
             DictObject [],
             RuleObject (typeOnly T_string) None None] 0
            \<lparr> ov_include = None, ov_exclude = None, ov_optional = None, ov_required = None,
              ov_append = Some [(''a.b'', 4)] \<rparr>) = Inr 8
   \<and> (case applyOverridesS 5
            [RuleObject (typeOnly T_object) None (Some 1),
             DictObject [(''a'', 2)],
             RuleObject (typeOnly T_mixed) None (Some 3),
             DictObject [],
             RuleObject (typeOnly T_string) None None] 0
            \<lparr> ov_include = None, ov_exclude = None, ov_optional = None, ov_required = None,
              ov_append = Some [(''a.b'', 4)] \<rparr> of
         Inl e \<Rightarrow> None
       | Inr (root, h) \<Rightarrow> readRule 5 h 0)
     = Some (objectNode (Some [(''a'', Rule (typeOnly T_mixed) None
               (Some [(''b'', Rule ((typeOnly T_string)\<lparr> required := Some True \<rparr>) None None)]))]))"
  by code_simp

end
